theory Spec2Isabelle
  imports Complex_Main "HOL-Library.Char_ord" "HOL-Library.List_Lexorder"
begin

section \<open>Strings, paths and percent-encoding\<close>

text \<open>
  Python \<^verbatim>\<open>str\<close> values are modelled as \<^typ>\<open>string\<close>, read as the UTF-8 bytes
  of the text. The order on strings is the lexicographic order on bytes, which is the
  order Python's \<^verbatim>\<open>sorted\<close> uses on \<^verbatim>\<open>str\<close>.
\<close>

definition startswith :: "string \<Rightarrow> string \<Rightarrow> bool" where
  "startswith s p = (take (length p) s = p)"

definition endswith :: "string \<Rightarrow> string \<Rightarrow> bool" where
  "endswith s p = (length p \<le> length s \<and> drop (length s - length p) s = p)"

text \<open>\<^verbatim>\<open>posixpath.join(a, b)\<close>: an absolute \<open>b\<close> replaces \<open>a\<close>.\<close>

definition join :: "string \<Rightarrow> string \<Rightarrow> string" where
  "join a b =
     (if startswith b ''/'' then b
      else if a = [] \<or> endswith a ''/'' then a @ b
      else a @ ''/'' @ b)"

text \<open>\<^verbatim>\<open>s.rfind('/') + 1\<close>: the length of the longest prefix that ends with a slash.\<close>

fun rfind_slash1 :: "string \<Rightarrow> nat" where
  "rfind_slash1 [] = 0"
| "rfind_slash1 (c # cs) =
     (if CHR ''/'' \<in> set cs then Suc (rfind_slash1 cs)
      else if c = CHR ''/'' then 1 else 0)"

text \<open>\<^verbatim>\<open>s.rstrip('/')\<close>\<close>

definition rstrip_slash :: "string \<Rightarrow> string" where
  "rstrip_slash s = rev (dropWhile (\<lambda>c. c = CHR ''/'') (rev s))"

text \<open>\<^verbatim>\<open>posixpath.dirname\<close> and \<^verbatim>\<open>posixpath.basename\<close>\<close>

definition dirname :: "string \<Rightarrow> string" where
  "dirname p =
     (let hd' = take (rfind_slash1 p) p
      in if hd' \<noteq> [] \<and> hd' \<noteq> replicate (length hd') (CHR ''/'') then rstrip_slash hd' else hd')"

definition basename :: "string \<Rightarrow> string" where
  "basename p = drop (rfind_slash1 p) p"

text \<open>\<^verbatim>\<open>s.split('/')\<close> and \<^verbatim>\<open>'/'.join(comps)\<close>\<close>

fun split_slash :: "string \<Rightarrow> string list" where
  "split_slash [] = [[]]"
| "split_slash (c # cs) =
     (if c = CHR ''/'' then [] # split_slash cs
      else (case split_slash cs of [] \<Rightarrow> [[c]] | x # xs \<Rightarrow> (c # x) # xs))"

fun join_slash :: "string list \<Rightarrow> string" where
  "join_slash [] = []"
| "join_slash [x] = x"
| "join_slash (x # y # ys) = x @ ''/'' @ join_slash (y # ys)"

text \<open>
  \<^verbatim>\<open>posixpath.normpath\<close>: the loop over the components keeps the list
  \<open>new_comps\<close>; \<open>initial\<close> is the number of leading slashes kept (0, 1 or 2).
\<close>

fun normpath_comps :: "nat \<Rightarrow> string list \<Rightarrow> string list \<Rightarrow> string list" where
  "normpath_comps initial new_comps [] = new_comps"
| "normpath_comps initial new_comps (part # comps) =
     (if part = [] \<or> part = ''.'' then normpath_comps initial new_comps comps
      else if part \<noteq> ''..'' \<or> (initial = 0 \<and> new_comps = [])
              \<or> (new_comps \<noteq> [] \<and> last new_comps = ''..'')
        then normpath_comps initial (new_comps @ [part]) comps
      else if new_comps \<noteq> [] then normpath_comps initial (butlast new_comps) comps
      else normpath_comps initial new_comps comps)"

definition normpath :: "string \<Rightarrow> string" where
  "normpath path =
     (if path = [] then ''.''
      else
        let initial =
              (if startswith path ''/''
               then (if startswith path ''//'' \<and> \<not> startswith path ''///'' then 2 else 1)
               else (0::nat));
            p = replicate initial (CHR ''/'') @ join_slash (normpath_comps initial [] (split_slash path))
        in if p = [] then ''.'' else p)"

text \<open>\<^verbatim>\<open>posixpath.abspath\<close>, with the process's working directory \<open>wd\<close>.\<close>

definition abspath :: "string \<Rightarrow> string \<Rightarrow> string" where
  "abspath wd path = normpath (if startswith path ''/'' then path else join wd path)"

text \<open>
  \<^verbatim>\<open>urllib.parse.quote_plus\<close> with its default \<^verbatim>\<open>safe=''\<close>: letters, digits and
  \<^verbatim>\<open>_.-~\<close> are kept, a space becomes \<^verbatim>\<open>+\<close>, every other byte becomes
  \<^verbatim>\<open>%XX\<close> with upper-case hexadecimal digits.
\<close>

definition unreserved :: "char \<Rightarrow> bool" where
  "unreserved c \<longleftrightarrow>
     c \<in> set ''ABCDEFGHIJKLMNOPQRSTUVWXYZabcdefghijklmnopqrstuvwxyz0123456789_.-~''"

definition hexdigit :: "nat \<Rightarrow> char" where
  "hexdigit n = ''0123456789ABCDEF'' ! (n mod 16)"

definition quote_byte :: "char \<Rightarrow> string" where
  "quote_byte c =
     (if unreserved c then [c]
      else if c = CHR '' '' then ''+''
      else [CHR ''%'', hexdigit (of_char c div 16), hexdigit (of_char c mod 16)])"

definition url_quote :: "string \<Rightarrow> string" where
  "url_quote s = concat (map quote_byte s)"

text \<open>\<^verbatim>\<open>s.replace('/', '-')\<close>\<close>

definition replace_slash_dash :: "string \<Rightarrow> string" where
  "replace_slash_dash s = map (\<lambda>c. if c = CHR ''/'' then CHR ''-'' else c) s"

section \<open>Reference parser\<close>

text \<open>
  \<^verbatim>\<open>re.match(r"^github:(?P<owner>.*)/(?P<repo>.*)@(?P<rev>.*)$", src)\<close>.
  A dot matches every character but a newline, and \<^verbatim>\<open>$\<close> matches at the end of
  the string or before a newline that ends it, so the text after the prefix is a body
  with no newline, followed by at most one newline. All three groups are greedy: the
  regular expression engine gives \<open>owner\<close> the longest text it can, so the slash it picks
  is the last one that still has an \<^verbatim>\<open>@\<close> after it, and \<open>repo\<close> then runs up to
  the last \<^verbatim>\<open>@\<close> of the body.
\<close>

fun split_last :: "char \<Rightarrow> string \<Rightarrow> (string \<times> string) option" where
  "split_last d [] = None"
| "split_last d (c # cs) =
     (case split_last d cs of
        Some (a, b) \<Rightarrow> Some (c # a, b)
      | None \<Rightarrow> if c = d then Some ([], cs) else None)"

definition re_match :: "string \<Rightarrow> string \<Rightarrow> (string \<times> string \<times> string) option" where
  "re_match prefix src =
     (if \<not> startswith src prefix then None
      else
        let rest = drop (length prefix) src;
            body = (if rest \<noteq> [] \<and> last rest = CHR 0x0A then butlast rest else rest)
        in if CHR 0x0A \<in> set body then None
           else (case split_last (CHR ''@'') body of
                   None \<Rightarrow> None
                 | Some (front, rev') \<Rightarrow>
                     (case split_last (CHR ''/'') front of
                        None \<Rightarrow> None
                      | Some (owner, repo) \<Rightarrow> Some (owner, repo, rev'))))"

text \<open>The functions return \<open>(cache_key, remote, rev)\<close>, or \<open>None\<close> when the pattern does not match.\<close>

definition clone_src_github :: "string \<Rightarrow> (string \<times> string \<times> string) option" where
  "clone_src_github src =
     (case re_match ''github:'' src of
        Some (owner0, repo0, rev0) \<Rightarrow>
          let owner = url_quote owner0;
              repo = url_quote repo0;
              rev' = url_quote rev0;
              remote = ''https://github.com/'' @ owner @ ''/'' @ repo;
              cache_key = ''github-'' @ owner @ ''-'' @ repo @ ''-'' @ rev'
          in Some (cache_key, remote, rev')
      | None \<Rightarrow> None)"

definition clone_src_gitlab :: "string \<Rightarrow> (string \<times> string \<times> string) option" where
  "clone_src_gitlab src =
     (case re_match ''gitlab:'' src of
        Some (owner0, repo0, rev0) \<Rightarrow>
          let owner = url_quote owner0;
              repo = url_quote repo0;
              rev' = url_quote rev0;
              remote = ''https://gitlab.com/'' @ owner @ ''/'' @ repo @ ''.git'';
              cache_key = ''gitlab-'' @ owner @ ''-'' @ repo @ ''-'' @ rev'
          in Some (cache_key, remote, rev')
      | None \<Rightarrow> None)"

section \<open>Exceptions, the file system and the world\<close>

text \<open>
  Every \<^verbatim>\<open>raise\<close> of the source is a value: a function that can raise returns
  \<open>(Inl exception, world)\<close> or \<open>(Inr result, world)\<close>, and keeps the world as it was
  when the exception left it. \<open>Error\<close> is the source's own exception class, with the
  message and, where the source passes them, the captured \<open>(stdout, stderr)\<close>.
\<close>

datatype oserror =
  FileNotFoundError | FileExistsError | IsADirectoryError | NotADirectoryError | SameFileError
| PermissionError

datatype exn =
  Error string "(string \<times> string) option"
| SystemExit int
| OSError oserror string
| KeyError string
| JSONDecodeError

text \<open>
  The file system maps an absolute, normalised path to what is there: a regular file
  with its content, or a directory. Symbolic links, permissions and special files are
  not modelled. Every operation resolves the path it is given against the working
  directory \<open>wd\<close> of the process, as the operating system does; \<open>under d p\<close> says
  that \<open>p\<close> lies below the directory \<open>d\<close>. An operation that raises leaves the file
  system as it was before the operation. A path that runs through a regular file is
  reported as missing (\<open>FileNotFoundError\<close>) where the operating system would say
  \<open>NotADirectoryError\<close>.
\<close>

datatype node = File string | Dir

type_synonym filesystem = "string \<Rightarrow> node option"

definition exists_path :: "string \<Rightarrow> filesystem \<Rightarrow> string \<Rightarrow> bool" where
  "exists_path wd f p = (f (abspath wd p) \<noteq> None)"

definition isdir :: "string \<Rightarrow> filesystem \<Rightarrow> string \<Rightarrow> bool" where
  "isdir wd f p = (f (abspath wd p) = Some Dir)"

definition under :: "string \<Rightarrow> string \<Rightarrow> bool" where
  "under d p = (if d = ''/'' then p \<noteq> ''/'' \<and> startswith p ''/'' else startswith p (d @ ''/''))"

text \<open>\<^verbatim>\<open>os.remove\<close>\<close>

definition remove :: "string \<Rightarrow> filesystem \<Rightarrow> string \<Rightarrow> exn + filesystem" where
  "remove wd f p =
     (case f (abspath wd p) of
        None \<Rightarrow> Inl (OSError FileNotFoundError p)
      | Some Dir \<Rightarrow> Inl (OSError IsADirectoryError p)
      | Some (File c) \<Rightarrow> Inr (f(abspath wd p := None)))"

text \<open>\<^verbatim>\<open>shutil.rmtree(p, ignore_errors=...)\<close>\<close>

definition rmtree :: "string \<Rightarrow> filesystem \<Rightarrow> string \<Rightarrow> bool \<Rightarrow> exn + filesystem" where
  "rmtree wd f p ignore_errors =
     (case f (abspath wd p) of
        Some Dir \<Rightarrow> Inr (\<lambda>x. if x = abspath wd p \<or> under (abspath wd p) x then None else f x)
      | None \<Rightarrow> if ignore_errors then Inr f else Inl (OSError FileNotFoundError p)
      | Some (File c) \<Rightarrow> if ignore_errors then Inr f else Inl (OSError NotADirectoryError p))"

text \<open>\<^verbatim>\<open>os.mkdir\<close>: the name must be free and its parent a directory.\<close>

definition mkdir :: "string \<Rightarrow> filesystem \<Rightarrow> string \<Rightarrow> exn + filesystem" where
  "mkdir wd f name =
     (if f (abspath wd name) \<noteq> None then Inl (OSError FileExistsError name)
      else (case f (dirname (abspath wd name)) of
              None \<Rightarrow> Inl (OSError FileNotFoundError name)
            | Some (File c) \<Rightarrow> Inl (OSError NotADirectoryError name)
            | Some Dir \<Rightarrow> Inr (f(abspath wd name \<mapsto> Dir))))"

lemma rfind_slash1_le: "rfind_slash1 p \<le> length p"
  by (induction p) auto

lemma length_rstrip_slash: "length (rstrip_slash s) \<le> length s"
  using length_dropWhile_le [of "\<lambda>c. c = CHR ''/''" "rev s"] by (simp add: rstrip_slash_def)

lemma length_dirname_le: "length (dirname p) \<le> rfind_slash1 p"
proof -
  have "length (rstrip_slash (take (rfind_slash1 p) p)) \<le> length (take (rfind_slash1 p) p)"
    by (rule length_rstrip_slash)
  then show ?thesis
    using rfind_slash1_le [of p] by (simp add: dirname_def Let_def)
qed

lemma dirname_shorter: "basename p \<noteq> [] \<Longrightarrow> length (dirname p) < length p"
  using length_dirname_le [of p] rfind_slash1_le [of p] by (simp add: basename_def)

lemma dirname_le: "length (dirname p) \<le> length p"
  using length_dirname_le [of p] rfind_slash1_le [of p] by simp

text \<open>
  \<^verbatim>\<open>os.makedirs(name)\<close> with \<^verbatim>\<open>exist_ok=False\<close>: split \<open>name\<close> into head and
  tail (once more when the tail is empty), create the head first when it is missing
  (a \<open>FileExistsError\<close> from that call is passed over), then \<^verbatim>\<open>mkdir(name)\<close>.
\<close>

definition makedirs_head :: "string \<Rightarrow> string" where
  "makedirs_head name = (if basename name = [] then dirname (dirname name) else dirname name)"

definition makedirs_tail :: "string \<Rightarrow> string" where
  "makedirs_tail name = (if basename name = [] then basename (dirname name) else basename name)"

lemma makedirs_head_shorter:
  assumes "makedirs_tail name \<noteq> []"
  shows "length (makedirs_head name) < length name"
proof (cases "basename name = []")
  case True
  with assms have "basename (dirname name) \<noteq> []" by (simp add: makedirs_tail_def)
  then have "length (dirname (dirname name)) < length (dirname name)" by (rule dirname_shorter)
  also have "length (dirname name) \<le> length name" by (rule dirname_le)
  finally show ?thesis using True by (simp add: makedirs_head_def)
next
  case False
  then show ?thesis using dirname_shorter [of name] by (simp add: makedirs_head_def)
qed

function makedirs :: "string \<Rightarrow> filesystem \<Rightarrow> string \<Rightarrow> exn + filesystem" where
  "makedirs wd f name =
     (if makedirs_head name \<noteq> [] \<and> makedirs_tail name \<noteq> []
         \<and> \<not> exists_path wd f (makedirs_head name)
      then (case makedirs wd f (makedirs_head name) of
              Inl (OSError FileExistsError q) \<Rightarrow>
                (if makedirs_tail name = ''.'' then Inr f else mkdir wd f name)
            | Inl e \<Rightarrow> Inl e
            | Inr f' \<Rightarrow> (if makedirs_tail name = ''.'' then Inr f' else mkdir wd f' name))
      else mkdir wd f name)"
  by pat_completeness auto
termination
  by (relation "measure (\<lambda>(wd, f, name). length name)") (auto simp: makedirs_head_shorter)

declare makedirs.simps [simp del]

text \<open>
  \<^verbatim>\<open>shutil.copy(src, dst)\<close>: a destination that is a directory receives the file
  under the source's base name; then \<^verbatim>\<open>copyfile\<close> refuses to copy a file onto
  itself, reads the source and writes the destination.
\<close>

definition copy :: "string \<Rightarrow> filesystem \<Rightarrow> string \<Rightarrow> string \<Rightarrow> exn + filesystem" where
  "copy wd f src dst =
     (let dst' = (if isdir wd f dst then join dst (basename src) else dst)
      in if abspath wd src = abspath wd dst' \<and> exists_path wd f src
         then Inl (OSError SameFileError src)
         else (case f (abspath wd src) of
                 None \<Rightarrow> Inl (OSError FileNotFoundError src)
               | Some Dir \<Rightarrow> Inl (OSError IsADirectoryError src)
               | Some (File c) \<Rightarrow>
                   (if isdir wd f dst' then Inl (OSError IsADirectoryError dst')
                    else (case f (dirname (abspath wd dst')) of
                            None \<Rightarrow> Inl (OSError FileNotFoundError dst')
                          | Some (File c') \<Rightarrow> Inl (OSError NotADirectoryError dst')
                          | Some Dir \<Rightarrow> Inr (f(abspath wd dst' \<mapsto> File c))))))"

text \<open>
  \<^verbatim>\<open>shutil.copytree(src, dst)\<close>: the source has to be a directory, the destination is
  created with \<^verbatim>\<open>os.makedirs\<close> (so it must not exist), and everything below the
  source is copied to the same place below the destination.
\<close>

definition copytree :: "string \<Rightarrow> filesystem \<Rightarrow> string \<Rightarrow> string \<Rightarrow> exn + filesystem" where
  "copytree wd f src dst =
     (case f (abspath wd src) of
        None \<Rightarrow> Inl (OSError FileNotFoundError src)
      | Some (File c) \<Rightarrow> Inl (OSError NotADirectoryError src)
      | Some Dir \<Rightarrow>
          (case makedirs wd f dst of
             Inl e \<Rightarrow> Inl e
           | Inr f' \<Rightarrow>
               Inr (\<lambda>x. if under (abspath wd dst) x
                           \<and> f (abspath wd src @ drop (length (abspath wd dst)) x) \<noteq> None
                        then f (abspath wd src @ drop (length (abspath wd dst)) x) else f' x)))"

text \<open>\<^verbatim>\<open>open(p).read()\<close>\<close>

definition open_read :: "string \<Rightarrow> filesystem \<Rightarrow> string \<Rightarrow> exn + string" where
  "open_read wd f p =
     (case f (abspath wd p) of
        None \<Rightarrow> Inl (OSError FileNotFoundError p)
      | Some Dir \<Rightarrow> Inl (OSError IsADirectoryError p)
      | Some (File c) \<Rightarrow> Inr c)"

section \<open>Configuration, external behaviour and the state of a run\<close>

text \<open>
  \<open>config\<close> holds what the module reads once at import: the working directory, the
  process environment, the directory for temporary files, \<^verbatim>\<open>sys.platform\<close> and the
  directory \<^verbatim>\<open>tempfile.mkdtemp()\<close> returned for \<^verbatim>\<open>OUT_BASE\<close>. The module-level
  constants are functions of it.
\<close>

record config =
  CWD :: string
  environ :: "string \<Rightarrow> string option"
  OUT_BASE :: string
  tempdir :: string
  platform :: string

text \<open>\<^verbatim>\<open>environ[key]\<close> at import; a missing key stops the import, which is outside this model.\<close>

definition environ_get :: "config \<Rightarrow> string \<Rightarrow> string" where
  "environ_get cfg key = (case environ cfg key of None \<Rightarrow> [] | Some v \<Rightarrow> v)"

definition SOURCES_CACHE :: "config \<Rightarrow> string" where
  "SOURCES_CACHE cfg = join (join (join (environ_get cfg ''HOME_IMPURE'') ''.cache'') ''makes'') ''sources''"

definition VERSION :: string where
  "VERSION = ''21.10''"

definition MAKES_SRC :: "config \<Rightarrow> string" where
  "MAKES_SRC cfg = environ_get cfg ''__MAKES_SRC__''"

definition NIX_STABLE_BIN :: "config \<Rightarrow> string" where
  "NIX_STABLE_BIN cfg = environ_get cfg ''__NIX_STABLE__''"

definition NIX_UNSTABLE_BIN :: "config \<Rightarrow> string" where
  "NIX_UNSTABLE_BIN cfg = environ_get cfg ''__NIX_UNSTABLE__''"

definition K8S_COMPAT :: "config \<Rightarrow> bool" where
  "K8S_COMPAT cfg = (environ_get cfg ''K8S_COMPAT'' \<noteq> [])"

definition NIX_STABLE :: "config \<Rightarrow> bool" where
  "NIX_STABLE cfg = (\<not> (environ_get cfg ''NIX_UNSTABLE'' \<noteq> []))"

text \<open>
  One call of \<^verbatim>\<open>_run\<close>: the argument vector, the working directory and whether the
  output is captured. (\<^verbatim>\<open>env\<close> and \<^verbatim>\<open>stdin\<close> are never passed in this file.)
\<close>

record call =
  args :: "string list"
  cwd :: "string option"
  capture_io :: bool

text \<open>
  A registered exit action: \<^verbatim>\<open>partial(shutil.rmtree, path, ignore_errors=flag)\<close>.
\<close>

datatype exit_action = Partial_rmtree string bool

text \<open>
  \<open>externals\<close> is what the program cannot decide: what a child process returns and does
  to the file system (given the calls made before it), the identifiers \<^verbatim>\<open>uuid4\<close>
  and \<^verbatim>\<open>tempfile\<close> draw, and \<^verbatim>\<open>json.load\<close> on the two manifests (\<open>None\<close> when
  the text is not JSON of the annotated type, a list of strings or a list of
  dictionaries from strings to strings). \<open>proc\<close> answers \<open>Inl k\<close> when the program
  of a call cannot be started, which is when \<^verbatim>\<open>Popen\<close> raises the \<open>OSError\<close> \<open>k\<close>
  (no such program, a directory, a file without the execute permission), and
  \<open>Inr ((code, stdout, stderr), f)\<close> when the child ran, ended with \<open>code\<close> and left
  the file system \<open>f\<close>.
\<close>

record externals =
  proc :: "call list \<Rightarrow> filesystem \<Rightarrow> call
    \<Rightarrow> oserror + ((int \<times> string \<times> string) \<times> filesystem)"
  uuid4_hex :: "nat \<Rightarrow> string"
  tmp_name :: "nat \<Rightarrow> string"
  json_attrs :: "string \<Rightarrow> string list option"
  json_cache :: "string \<Rightarrow> (string \<times> string) list list option"

text \<open>
  The state of a run. \<open>spawned\<close> lists the calls of \<^verbatim>\<open>Popen\<close> (the child
  processes started, and the calls whose program could not be started), \<open>stderr\<close> the
  lines \<^verbatim>\<open>_log\<close> printed and \<open>cleaned\<close> the exit actions run, each oldest first;
  \<open>ctime\<close> and \<open>now\<close> are what \<^verbatim>\<open>getctime\<close> and \<^verbatim>\<open>time()\<close> return, in seconds.
\<close>

record world =
  fs :: filesystem
  ctime :: "string \<Rightarrow> real"
  now :: real
  spawned :: "call list"
  stderr :: "string list"
  ON_EXIT :: "exit_action list"
  cleaned :: "exit_action list"
  tmp_count :: nat
  uuid_count :: nat

text \<open>\<^verbatim>\<open>_log(s)\<close>; \<^verbatim>\<open>_log()\<close> prints the empty line \<open>[]\<close>.\<close>

definition log :: "world \<Rightarrow> string \<Rightarrow> world" where
  "log w s = w\<lparr>stderr := stderr w @ [s]\<rparr>"

text \<open>
  \<^verbatim>\<open>_run\<close>. \<^verbatim>\<open>Popen\<close> raises when the program cannot be started, and
  \<^verbatim>\<open>_run\<close> lets the exception through; its file name is the program, the first
  argument. With \<^verbatim>\<open>capture_io=False\<close> the two streams are \<^verbatim>\<open>None\<close> in the
  source and every caller discards them; here they are empty.
\<close>

definition run :: "externals \<Rightarrow> world \<Rightarrow> string list \<Rightarrow> string option \<Rightarrow> bool
    \<Rightarrow> (exn + int \<times> string \<times> string) \<times> world" where
  "run sys w argv dir capture =
     (let c = \<lparr>args = argv, cwd = dir, capture_io = capture\<rparr>
      in case proc sys (spawned w) (fs w) c of
           Inl k \<Rightarrow>
             (Inl (OSError k (case argv of [] \<Rightarrow> [] | program # arguments \<Rightarrow> program)),
              w\<lparr>spawned := spawned w @ [c]\<rparr>)
         | Inr ((code, out, err), f) \<Rightarrow>
             (Inr (code, if capture then out else [], if capture then err else []),
              w\<lparr>fs := f, spawned := spawned w @ [c]\<rparr>))"

text \<open>\<^verbatim>\<open>_if(condition, *value)\<close>\<close>

definition if_list :: "bool \<Rightarrow> 'a list \<Rightarrow> 'a list" where
  "if_list condition value = (if condition then value else [])"

section \<open>Clone cache\<close>

definition clone_src_cache_get :: "config \<Rightarrow> world \<Rightarrow> string \<Rightarrow> string \<Rightarrow> string
    \<Rightarrow> (exn + string) \<times> world" where
  "clone_src_cache_get cfg w src cache_key remote =
     (let cached = join (SOURCES_CACHE cfg) cache_key
      in if cache_key \<noteq> [] then
           (if exists_path (CWD cfg) (fs w) cached then
              (let cached_since = now w - ctime w (abspath (CWD cfg) cached)
               in if cached_since \<le> 86400 then
                    (Inr cached,
                     log (log w (''Using cached version of: '' @ src @ '', from: '' @ cached)) [])
                  else (case rmtree (CWD cfg) (fs w) cached False of
                          Inl e \<Rightarrow> (Inl e, w)
                        | Inr f \<Rightarrow> (Inr remote, w\<lparr>fs := f\<rparr>)))
            else (Inr remote, log w (''Downloading: '' @ src)))
         else (Inr remote, w))"

text \<open>A copied tree is new: its change time is the time of the copy.\<close>

definition clone_src_cache_refresh :: "config \<Rightarrow> world \<Rightarrow> string \<Rightarrow> string
    \<Rightarrow> (exn + unit) \<times> world" where
  "clone_src_cache_refresh cfg w head cache_key =
     (let cached = join (SOURCES_CACHE cfg) cache_key
      in if cache_key \<noteq> [] \<and> \<not> exists_path (CWD cfg) (fs w) cached then
           (case copytree (CWD cfg) (fs w) head cached of
              Inl e \<Rightarrow> (Inl e, w)
            | Inr f \<Rightarrow> (Inr (), w\<lparr>fs := f, ctime := (ctime w)(abspath (CWD cfg) cached := now w)\<rparr>))
         else (Inr (), w))"

definition is_src_local :: "config \<Rightarrow> string \<Rightarrow> bool" where
  "is_src_local cfg src = (abspath (CWD cfg) src = CWD cfg)"

section \<open>Build invocation builder\<close>

text \<open>
  A cache configuration entry is a \<^verbatim>\<open>Dict[str, str]\<close>, here an association list;
  \<^verbatim>\<open>d[key]\<close> raises \<open>KeyError\<close> for a missing key. \<open>itemgetter_all key cache\<close> is
  \<^verbatim>\<open>map(operator.itemgetter(key), cache)\<close> as \<^verbatim>\<open>" ".join\<close> consumes it.
\<close>

definition getitem :: "(string \<times> string) list \<Rightarrow> string \<Rightarrow> exn + string" where
  "getitem d key = (case map_of d key of None \<Rightarrow> Inl (KeyError key) | Some v \<Rightarrow> Inr v)"

fun itemgetter_all :: "string \<Rightarrow> (string \<times> string) list list \<Rightarrow> exn + string list" where
  "itemgetter_all key [] = Inr []"
| "itemgetter_all key (d # ds) =
     (case getitem d key of
        Inl e \<Rightarrow> Inl e
      | Inr v \<Rightarrow> (case itemgetter_all key ds of Inl e \<Rightarrow> Inl e | Inr vs \<Rightarrow> Inr (v # vs)))"

fun join_space :: "string list \<Rightarrow> string" where
  "join_space [] = []"
| "join_space [x] = x"
| "join_space (x # y # ys) = x @ '' '' @ join_space (y # ys)"

text \<open>
  \<^verbatim>\<open>_nix_build\<close>. Python evaluates \<^verbatim>\<open>uuid().hex\<close> before it calls \<^verbatim>\<open>_if\<close>, so
  an identifier is drawn in both modes; only the stable mode puts it into the list.
  An empty \<open>out\<close> is the default \<^verbatim>\<open>out=""\<close>.
\<close>

definition nix_build :: "config \<Rightarrow> externals \<Rightarrow> world \<Rightarrow> string
    \<Rightarrow> (string \<times> string) list list option \<Rightarrow> string \<Rightarrow> string
    \<Rightarrow> (exn + string list) \<times> world" where
  "nix_build cfg sys w attr cache head out =
     (case (case cache of
              None \<Rightarrow>
                Inr (''https://cache.nixos.org'',
                     ''cache.nixos.org-1:6NCHdD59X431o0gWypbMrAURkbJ16ZPMQFGspcDShjY='')
            | Some c \<Rightarrow>
                (case itemgetter_all ''url'' c of
                   Inl e \<Rightarrow> Inl e
                 | Inr urls \<Rightarrow>
                     (case itemgetter_all ''pubKey'' c of
                        Inl e \<Rightarrow> Inl e
                      | Inr keys \<Rightarrow> Inr (join_space urls, join_space keys)))) of
        Inl e \<Rightarrow> (Inl e, w)
      | Inr (substituters, trusted_pub_keys) \<Rightarrow>
          (Inr (if_list (NIX_STABLE cfg) [NIX_STABLE_BIN cfg @ ''/bin/nix-build'']
              @ if_list (\<not> NIX_STABLE cfg) [NIX_UNSTABLE_BIN cfg @ ''/bin/nix'']
              @ if_list (\<not> NIX_STABLE cfg) [''--experimental-features'', ''flakes nix-command'']
              @ if_list (\<not> NIX_STABLE cfg) [''build'']
              @ if_list (NIX_STABLE cfg)
                  [''--argstr'', ''makesExecutionId'', uuid4_hex sys (uuid_count w)]
              @ if_list (NIX_STABLE cfg) [''--argstr'', ''makesSrc'', MAKES_SRC cfg]
              @ if_list (NIX_STABLE cfg) [''--argstr'', ''projectSrc'', head]
              @ if_list (NIX_STABLE cfg) [''--attr'', attr]
              @ [''--option'', ''cores'', ''0'']
              @ if_list (\<not> NIX_STABLE cfg) [''--impure'']
              @ [''--option'', ''narinfo-cache-negative-ttl'', ''1'']
              @ [''--option'', ''narinfo-cache-positive-ttl'', ''1'']
              @ [''--option'', ''max-jobs'', ''auto'']
              @ [''--option'', ''substituters'', substituters]
              @ [''--option'', ''trusted-public-keys'', trusted_pub_keys]
              @ [''--option'', ''sandbox'', if K8S_COMPAT cfg then ''false'' else ''true'']
              @ if_list (out \<noteq> []) [''--out-link'', out]
              @ if_list (out = []) [''--no-out-link'']
              @ [''--show-trace'']
              @ if_list (NIX_STABLE cfg) [MAKES_SRC cfg @ ''/src/evaluator/default.nix'']
              @ if_list (\<not> NIX_STABLE cfg) [attr]),
           w\<lparr>uuid_count := Suc (uuid_count w)\<rparr>))"

section \<open>Checkout builder\<close>

text \<open>
  \<^verbatim>\<open>str.splitlines\<close>, on the UTF-8 bytes of the text. \<open>linebreak_len s\<close> is the
  number of bytes of the line boundary that \<open>s\<close> starts with, 0 when it starts with
  none: CR LF, the single bytes LF, CR, VT, FF, FS, GS and RS, U+0085 (the bytes C2 85),
  U+2028 and U+2029 (E2 80 A8 and E2 80 A9). \<open>cur\<close> is the line read so far,
  reversed.
\<close>

definition linebreak_len :: "string \<Rightarrow> nat" where
  "linebreak_len s =
     (if take 2 s = [CHR 0x0D, CHR 0x0A] then 2
      else if take 1 s \<in> set [[CHR 0x0A], [CHR 0x0D], [CHR 0x0B], [CHR 0x0C], [CHR 0x1C],
                               [CHR 0x1D], [CHR 0x1E]] then 1
      else if take 2 s = [CHR 0xC2, CHR 0x85] then 2
      else if take 3 s = [CHR 0xE2, CHR 0x80, CHR 0xA8] \<or> take 3 s = [CHR 0xE2, CHR 0x80, CHR 0xA9]
        then 3
      else 0)"

fun splitlines_from :: "string \<Rightarrow> string \<Rightarrow> string list" where
  "splitlines_from cur [] = (if cur = [] then [] else [rev cur])"
| "splitlines_from cur (c # cs) =
     (if linebreak_len (c # cs) = 0 then splitlines_from (c # cur) cs
      else rev cur # splitlines_from [] (drop (linebreak_len (c # cs) - 1) cs))"

definition splitlines :: "string \<Rightarrow> string list" where
  "splitlines s = splitlines_from [] s"

text \<open>
  \<^verbatim>\<open>_clone_src\<close>. \<^verbatim>\<open>tempfile.TemporaryDirectory(prefix="makes-").name\<close> creates a
  directory and, the object being dropped at once, removes it again: what remains is
  its name, which is assumed new. The three cases of the source reference give
  \<open>(cache_key, remote, rev)\<close>.
\<close>

definition clone_src :: "config \<Rightarrow> externals \<Rightarrow> world \<Rightarrow> string \<Rightarrow> (exn + string) \<times> world" where
  "clone_src cfg sys w src =
     (let head = join (tempdir cfg) (''makes-'' @ tmp_name sys (tmp_count w));
          w0 = w\<lparr>ON_EXIT := ON_EXIT w @ [Partial_rmtree head True], tmp_count := Suc (tmp_count w)\<rparr>
      in case (if is_src_local cfg src then Some ([], abspath (CWD cfg) src, ''HEAD'')
               else (case clone_src_github src of
                       Some m \<Rightarrow> Some m
                     | None \<Rightarrow> clone_src_gitlab src)) of
           None \<Rightarrow> (Inl (Error (''Unable to parse [SOURCE]: '' @ src) None), w0)
         | Some (cache_key, remote, rev') \<Rightarrow>
             (case run sys w0 [''git'', ''init'', ''--initial-branch=____'', ''--shared=false'', head]
                     None True of
                (Inl e, w1) \<Rightarrow> (Inl e, w1)
              | (Inr (out1, stdout1, stderr1), w1) \<Rightarrow>
                  if out1 \<noteq> 0
                  then (Inl (Error (''Unable to git init: '' @ src) (Some (stdout1, stderr1))), w1)
                  else (case clone_src_cache_get cfg w1 src cache_key remote of
                          (Inl e, w2) \<Rightarrow> (Inl e, w2)
                        | (Inr remote', w2) \<Rightarrow>
                            (case run sys w2
                                    [''git'', ''-C'', head, ''fetch'', ''--depth=1'', remote',
                                     rev' @ '':'' @ rev'] None True of
                               (Inl e, w3) \<Rightarrow> (Inl e, w3)
                             | (Inr (out3, stdout3, stderr3), w3) \<Rightarrow>
                                 if out3 \<noteq> 0
                                 then (Inl (Error (''Unable to git fetch: '' @ src)
                                              (Some (stdout3, stderr3))), w3)
                                 else (case run sys w3 [''git'', ''-C'', head, ''checkout'', rev']
                                              None True of
                                         (Inl e, w4) \<Rightarrow> (Inl e, w4)
                                       | (Inr (out4, stdout4, stderr4), w4) \<Rightarrow>
                                           if out4 \<noteq> 0
                                           then (Inl (Error (''Unable to git checkout: '' @ src)
                                                        (Some (stdout4, stderr4))), w4)
                                           else (case clone_src_cache_refresh cfg w4 head cache_key of
                                                   (Inl e, w5) \<Rightarrow> (Inl e, w5)
                                                 | (Inr u, w5) \<Rightarrow> (Inr head, w5)))))))"

text \<open>
  The loop \<^verbatim>\<open>for path in sorted(paths)\<close> of \<^verbatim>\<open>_get_head\<close> (``Copy paths to head''),
  over the file system: one round makes the destination's directory when it is missing,
  then copies the working file, or removes the destination when the working file is gone.
\<close>

fun copy_paths :: "string \<Rightarrow> string \<Rightarrow> string \<Rightarrow> string list \<Rightarrow> filesystem \<Rightarrow> (exn + unit) \<times> filesystem" where
  "copy_paths wd src head [] f = (Inr (), f)"
| "copy_paths wd src head (path # paths) f =
     (let dest = join head path;
          path' = join src path
      in case (if \<not> exists_path wd f (dirname dest) then makedirs wd f (dirname dest) else Inr f) of
           Inl e \<Rightarrow> (Inl e, f)
         | Inr f1 \<Rightarrow>
             (case (if exists_path wd f1 path' then copy wd f1 path' dest else remove wd f1 dest) of
                Inl e \<Rightarrow> (Inl e, f1)
              | Inr f2 \<Rightarrow> copy_paths wd src head paths f2))"

text \<open>
  \<^verbatim>\<open>_get_head\<close>. The set \<open>paths\<close> is the list of the lines of both listings without
  repetitions; \<^verbatim>\<open>sorted\<close> is \<^const>\<open>sort\<close>. The captured output is taken to be
  valid UTF-8, so \<^verbatim>\<open>decode()\<close> does not raise.
\<close>

definition get_head :: "config \<Rightarrow> externals \<Rightarrow> world \<Rightarrow> string \<Rightarrow> (exn + string) \<times> world" where
  "get_head cfg sys w src =
     (case clone_src cfg sys w src of
        (Inl e, w1) \<Rightarrow> (Inl e, w1)
      | (Inr head, w1) \<Rightarrow>
          (case (if is_src_local cfg src then
                   (case run sys w1 [''git'', ''-C'', src, ''diff'', ''--cached'', ''--name-only'']
                           None True of
                      (Inl e, w2) \<Rightarrow> (Inl e, w2)
                    | (Inr (out2, stdout2, stderr2), w2) \<Rightarrow>
                        if out2 \<noteq> 0
                        then (Inl (Error (''Unable to list files: '' @ src) (Some (stdout2, stderr2))), w2)
                        else (case run sys w2 [''git'', ''-C'', src, ''ls-files'', ''--modified'']
                                     None True of
                                (Inl e, w3) \<Rightarrow> (Inl e, w3)
                              | (Inr (out3, stdout3, stderr3), w3) \<Rightarrow>
                                  if out3 \<noteq> 0
                                  then (Inl (Error (''Unable to list files: '' @ src)
                                               (Some (stdout3, stderr3))), w3)
                                  else (case copy_paths (CWD cfg) src head
                                               (sort (remdups (splitlines stdout2 @ splitlines stdout3)))
                                               (fs w3) of
                                          (r, f) \<Rightarrow> (r, w3\<lparr>fs := f\<rparr>))))
                 else (Inr (), w1)) of
             (Inl e, w4) \<Rightarrow> (Inl e, w4)
           | (Inr u, w4) \<Rightarrow>
               (case rmtree (CWD cfg) (fs w4) (join head ''.git'') False of
                  Inl e \<Rightarrow> (Inl e, w4)
                | Inr f \<Rightarrow> (Inr head, w4\<lparr>fs := f\<rparr>))))"

section \<open>Output enumerator\<close>

text \<open>
  \<^verbatim>\<open>tempfile.mktemp()\<close> returns a name in the temporary directory, assumed new.
  \<^verbatim>\<open>open(out)\<close> raises when there is no regular file at \<open>out\<close>; \<^verbatim>\<open>json.load\<close> raises
  on text that is not the expected JSON. \<^verbatim>\<open>_get_attrs\<close> and \<^verbatim>\<open>_get_cache\<close> differ
  in the attribute, the message and the manifest's type.
\<close>

definition mktemp :: "config \<Rightarrow> externals \<Rightarrow> world \<Rightarrow> string \<times> world" where
  "mktemp cfg sys w =
     (join (tempdir cfg) (''tmp'' @ tmp_name sys (tmp_count w)), w\<lparr>tmp_count := Suc (tmp_count w)\<rparr>)"

definition get_attrs :: "config \<Rightarrow> externals \<Rightarrow> world \<Rightarrow> string \<Rightarrow> string
    \<Rightarrow> (exn + string list) \<times> world" where
  "get_attrs cfg sys w src head =
     (case mktemp cfg sys w of
        (out, w0) \<Rightarrow>
          (case nix_build cfg sys w0
                  (if NIX_STABLE cfg then ''config.attrs''
                   else head @ ''#__makes__.'' @ [CHR 0x22] @ ''config:attrs'' @ [CHR 0x22])
                  None head out of
             (Inl e, w1) \<Rightarrow> (Inl e, w1)
           | (Inr argv, w1) \<Rightarrow>
               (case run sys w1 argv None True of
                  (Inl e, w2) \<Rightarrow> (Inl e, w2)
                | (Inr (code, stdout1, stderr1), w2) \<Rightarrow>
                    if code = 0 then
                      (case open_read (CWD cfg) (fs w2) out of
                         Inl e \<Rightarrow> (Inl e, w2)
                       | Inr text \<Rightarrow>
                           (case json_attrs sys text of
                              None \<Rightarrow> (Inl JSONDecodeError, w2)
                            | Some v \<Rightarrow> (Inr v, w2)))
                    else (Inl (Error (''Unable to list project outputs from: '' @ src) (Some (stdout1, stderr1))), w2))))"

definition get_cache :: "config \<Rightarrow> externals \<Rightarrow> world \<Rightarrow> string \<Rightarrow> string
    \<Rightarrow> (exn + (string \<times> string) list list) \<times> world" where
  "get_cache cfg sys w src head =
     (case mktemp cfg sys w of
        (out, w0) \<Rightarrow>
          (case nix_build cfg sys w0
                  (if NIX_STABLE cfg then ''config.cacheAsJson''
                   else head @ ''#__makes__.'' @ [CHR 0x22] @ ''config:cacheAsJson'' @ [CHR 0x22])
                  None head out of
             (Inl e, w1) \<Rightarrow> (Inl e, w1)
           | (Inr argv, w1) \<Rightarrow>
               (case run sys w1 argv None True of
                  (Inl e, w2) \<Rightarrow> (Inl e, w2)
                | (Inr (code, stdout1, stderr1), w2) \<Rightarrow>
                    if code = 0 then
                      (case open_read (CWD cfg) (fs w2) out of
                         Inl e \<Rightarrow> (Inl e, w2)
                       | Inr text \<Rightarrow>
                           (case json_cache sys text of
                              None \<Rightarrow> (Inl JSONDecodeError, w2)
                            | Some v \<Rightarrow> (Inr v, w2)))
                    else (Inl (Error (''Unable to get cache config from: '' @ src) (Some (stdout1, stderr1))), w2))))"

section \<open>Orchestrator\<close>

text \<open>
  \<^verbatim>\<open>_help_and_exit(src, attrs, exc)\<close> always raises: \<open>exc\<close> when one is given,
  \<open>SystemExit 1\<close> otherwise. \<^verbatim>\<open>if src:\<close> holds for a string that is not empty.
\<close>

definition hidden_attrs :: "string list" where
  "hidden_attrs = [''__all__'', ''/secretsForAwsFromEnv/__default__'']"

definition help_and_exit :: "world \<Rightarrow> string option \<Rightarrow> string list option \<Rightarrow> exn option
    \<Rightarrow> exn \<times> world" where
  "help_and_exit w src attrs exc =
     (let w1 = log w ''Usage: m [SOURCE] [OUTPUT] [ARGS]...'';
          w2 = (case src of
                  Some (c # cs) \<Rightarrow> log (log w1 []) (''[SOURCE] is currently: '' @ c # cs)
                | _ \<Rightarrow>
                    foldl log w1
                      [[],
                       ''[SOURCE] can be:'',
                       [],
                       ''  A Git repository in the current working directory:'',
                       ''    $ m .'',
                       [],
                       ''  A GitHub repository and revision (branch, commit or tag):'',
                       ''    $ m github:owner/repo@rev'',
                       [],
                       ''  A GitLab repository and revision (branch, commit or tag):'',
                       ''    $ m gitlab:owner/repo@rev'']);
          w3 = (case attrs of
                  None \<Rightarrow>
                    log (log w2 []) ''[OUTPUT] options will be listed when you provide a [SOURCE]''
                | Some as \<Rightarrow>
                    foldl log (log (log w2 []) ''[OUTPUT] can be:'')
                      (map (\<lambda>attr. ''  '' @ attr) (filter (\<lambda>attr. attr \<notin> set hidden_attrs) as)))
      in case exc of
           Some e \<Rightarrow> (e, log w3 [])
         | None \<Rightarrow> (SystemExit 1, log (log w3 []) ''[ARGS] are passed to the output (if supported).''))"

text \<open>
  \<^verbatim>\<open>execute_action\<close> returns when nothing exists at the script's path. Otherwise it
  raises: \<open>SystemExit\<close> with the script's exit code when the script ran, and what
  \<^verbatim>\<open>Popen\<close> raised when it could not be started.
\<close>

definition execute_action :: "config \<Rightarrow> externals \<Rightarrow> world \<Rightarrow> string list \<Rightarrow> string
    \<Rightarrow> (exn + unit) \<times> world" where
  "execute_action cfg sys w argv out =
     (let action_path = join out ''makes-action.sh''
      in if exists_path (CWD cfg) (fs w) action_path then
           (case run sys w (action_path # out # argv) (Some (CWD cfg)) False of
              (Inl e, w1) \<Rightarrow> (Inl e, w1)
            | (Inr (code, so, se), w1) \<Rightarrow> (Inl (SystemExit code), w1))
         else (Inr (), w))"

text \<open>
  \<^verbatim>\<open>cache_push\<close>: the first entry of type \<open>cachix\<close> is pushed when the credential is
  in the environment, and the loop ends there; the push's exit code is not read.
  \<^verbatim>\<open>config["type"]\<close> is read for every entry the loop comes to, and
  \<^verbatim>\<open>config["name"]\<close> after the line \<open>Pushing to cache\<close> is printed and before
  \<^verbatim>\<open>_run\<close> is called.
\<close>

fun cache_push :: "config \<Rightarrow> externals \<Rightarrow> world \<Rightarrow> (string \<times> string) list list \<Rightarrow> string
    \<Rightarrow> (exn + unit) \<times> world" where
  "cache_push cfg sys w [] out = (Inr (), w)"
| "cache_push cfg sys w (config # cache) out =
     (case getitem config ''type'' of
        Inl e \<Rightarrow> (Inl e, w)
      | Inr t \<Rightarrow>
          if t = ''cachix'' \<and> environ cfg ''CACHIX_AUTH_TOKEN'' \<noteq> None then
            (let w1 = log w ''Pushing to cache''
             in case getitem config ''name'' of
                  Inl e \<Rightarrow> (Inl e, w1)
                | Inr name \<Rightarrow>
                    (case run sys w1 [''cachix'', ''push'', ''-c'', ''0'', name, out] None False of
                       (Inl e, w2) \<Rightarrow> (Inl e, w2)
                     | (Inr r, w2) \<Rightarrow> (Inr (), w2)))
          else cache_push cfg sys w cache out)"

text \<open>
  \<^verbatim>\<open>cli(args)\<close> always raises. \<^verbatim>\<open>args[1]\<close> and \<^verbatim>\<open>args[2]\<close> are read only after
  \<^verbatim>\<open>args[1:]\<close> and \<^verbatim>\<open>args[2:]\<close> were found not empty. \<open>cli_banner\<close> is the two
  \<^verbatim>\<open>_log\<close> calls that open it, \<open>build_attr\<close> the attribute it asks the engine for.
\<close>

definition build_attr :: "config \<Rightarrow> string \<Rightarrow> string \<Rightarrow> string" where
  "build_attr cfg head attr =
     (if NIX_STABLE cfg then ''config.outputs.'' @ [CHR 0x22] @ attr @ [CHR 0x22]
      else head @ ''#__makes__.'' @ [CHR 0x22] @ ''config:outputs:'' @ attr @ [CHR 0x22])"

definition cli_banner :: "config \<Rightarrow> world \<Rightarrow> world" where
  "cli_banner cfg w = log (log w (''Makes v'' @ VERSION @ ''-'' @ platform cfg @ '' (IOHK)'')) []"

definition cli :: "config \<Rightarrow> externals \<Rightarrow> world \<Rightarrow> string list \<Rightarrow> exn \<times> world" where
  "cli cfg sys w argv =
     (let w0 = cli_banner cfg w
      in if drop 1 argv = [] then help_and_exit w0 None None None
         else
           (let src = argv ! 1
            in if drop 2 argv = [] then
                 (case get_head cfg sys w0 src of
                    (Inl (Error m d), w1) \<Rightarrow> help_and_exit w1 (Some src) None (Some (Error m d))
                  | (Inl e, w1) \<Rightarrow> (e, w1)
                  | (Inr head, w1) \<Rightarrow>
                      (case get_attrs cfg sys w1 src head of
                         (Inl (Error m d), w2) \<Rightarrow>
                           help_and_exit w2 (Some src) None (Some (Error m d))
                       | (Inl e, w2) \<Rightarrow> (e, w2)
                       | (Inr attrs, w2) \<Rightarrow> help_and_exit w2 (Some src) (Some attrs) None))
               else
                 (let attr = argv ! 2;
                      rest = drop 3 argv
                  in case get_head cfg sys w0 src of
                       (Inl e, w1) \<Rightarrow> (e, w1)
                     | (Inr head, w1) \<Rightarrow>
                         (case get_attrs cfg sys w1 src head of
                            (Inl e, w2) \<Rightarrow> (e, w2)
                          | (Inr attrs, w2) \<Rightarrow>
                              if attr \<notin> set attrs then help_and_exit w2 (Some src) (Some attrs) None
                              else
                                (let out = join (OUT_BASE cfg) (''result'' @ replace_slash_dash attr)
                                 in case get_cache cfg sys w2 src head of
                                      (Inl e, w3) \<Rightarrow> (e, w3)
                                    | (Inr cache, w3) \<Rightarrow>
                                        (case nix_build cfg sys w3 (build_attr cfg head attr)
                                                (Some cache) head out of
                                           (Inl e, w4) \<Rightarrow> (e, w4)
                                         | (Inr bargs, w4) \<Rightarrow>
                                             (case run sys w4 bargs None False of
                                                (Inl e, w5) \<Rightarrow> (e, w5)
                                              | (Inr (code, so, se), w5) \<Rightarrow>
                                                  if code = 0 then
                                                    (case cache_push cfg sys w5 cache out of
                                                       (Inl e, w6) \<Rightarrow> (e, w6)
                                                     | (Inr u, w6) \<Rightarrow>
                                                         (case execute_action cfg sys w6 rest out of
                                                            (Inl e, w7) \<Rightarrow> (e, w7)
                                                          | (Inr u', w7) \<Rightarrow> (SystemExit code, w7)))
                                                  else (SystemExit code, w5))))))))"

text \<open>
  \<^verbatim>\<open>main\<close> turns an \<open>Error\<close> into a report on the diagnostic stream and
  \<^verbatim>\<open>sys.exit(1)\<close>, passes a \<open>SystemExit\<close> on, and catches nothing else. The
  captured output it reports is taken to be valid UTF-8, which
  \<^verbatim>\<open>decode(errors='replace')\<close> leaves as it is.
\<close>

definition main :: "config \<Rightarrow> externals \<Rightarrow> world \<Rightarrow> string list \<Rightarrow> exn \<times> world" where
  "main cfg sys w argv =
     (case cli cfg sys w argv of
        (Error msg detail, w1) \<Rightarrow>
          (let w2 = log w1 (''[ERROR] '' @ msg)
           in (SystemExit 1,
               (case detail of
                  None \<Rightarrow> w2
                | Some (out, err) \<Rightarrow>
                    log (log w2 (''[ERROR] Stdout: '' @ [CHR 0x0A] @ out))
                      (''[ERROR] Stderr: '' @ [CHR 0x0A] @ err))))
      | (SystemExit code, w1) \<Rightarrow> (SystemExit code, w1)
      | (e, w1) \<Rightarrow> (e, w1))"

text \<open>
  \<^verbatim>\<open>cleanup\<close>: each action runs inside \<^verbatim>\<open>suppress(BaseException)\<close>, so what it
  raises is dropped and the loop goes on with the next action.
\<close>

fun run_exit_action :: "string \<Rightarrow> exit_action \<Rightarrow> world \<Rightarrow> (exn + unit) \<times> world" where
  "run_exit_action wd (Partial_rmtree p ignore_errors) w =
     (case rmtree wd (fs w) p ignore_errors of
        Inl e \<Rightarrow> (Inl e, w\<lparr>cleaned := cleaned w @ [Partial_rmtree p ignore_errors]\<rparr>)
      | Inr f \<Rightarrow> (Inr (), w\<lparr>fs := f, cleaned := cleaned w @ [Partial_rmtree p ignore_errors]\<rparr>))"

fun cleanup_actions :: "string \<Rightarrow> exit_action list \<Rightarrow> world \<Rightarrow> world" where
  "cleanup_actions wd [] w = w"
| "cleanup_actions wd (action # actions) w =
     cleanup_actions wd actions (snd (run_exit_action wd action w))"

definition cleanup :: "config \<Rightarrow> world \<Rightarrow> world" where
  "cleanup cfg w = cleanup_actions (CWD cfg) (ON_EXIT w) w"

text \<open>
  What the module does at import before \<^verbatim>\<open>main\<close> runs: \<^verbatim>\<open>tempfile.mkdtemp()\<close>
  has made \<open>OUT_BASE\<close>, \<open>ON_EXIT\<close> starts with its removal, and each feature flag that
  is set is announced.
\<close>

definition startup :: "config \<Rightarrow> world \<Rightarrow> world" where
  "startup cfg w =
     (let w1 = w\<lparr>fs := (fs w)(abspath (CWD cfg) (OUT_BASE cfg) \<mapsto> Dir), ON_EXIT := [Partial_rmtree (OUT_BASE cfg) True]\<rparr>;
          w2 = (if K8S_COMPAT cfg then log (log w1 ''Using feature flag: K8S_COMPAT'') [] else w1)
      in if \<not> NIX_STABLE cfg then log (log w2 ''Using feature flag: NIX_UNSTABLE'') [] else w2)"

text \<open>
  The block under \<^verbatim>\<open>if __name__ == "__main__"\<close>: \<^verbatim>\<open>main()\<close>, then \<^verbatim>\<open>cleanup()\<close>
  in the \<^verbatim>\<open>finally\<close> clause. The process ends with the code of the \<open>SystemExit\<close>,
  or with a traceback and status 1 when another exception is left. \<open>exit_code\<close> is
  the number handed to \<^verbatim>\<open>sys.exit\<close>; the operating system reports its low eight bits.
\<close>

datatype outcome = Exited int | Traceback exn

definition outcome_of :: "exn \<Rightarrow> outcome" where
  "outcome_of e = (case e of SystemExit code \<Rightarrow> Exited code | _ \<Rightarrow> Traceback e)"

definition exit_code :: "outcome \<Rightarrow> int" where
  "exit_code r = (case r of Exited code \<Rightarrow> code | Traceback e \<Rightarrow> 1)"

definition program :: "config \<Rightarrow> externals \<Rightarrow> world \<Rightarrow> string list \<Rightarrow> outcome \<times> world" where
  "program cfg sys w argv =
     (case main cfg sys (startup cfg w) argv of
        (e, w1) \<Rightarrow> (outcome_of e, cleanup cfg w1))"

section \<open>Example runs\<close>

text \<open>
  A concrete configuration, concrete externals and a concrete starting world, on which
  the definitions above can be evaluated. The working directory \<open>/w\<close> holds a regular
  file \<open>a\<close> and an edited file \<open>b\<close>; the commit checked out by the example \<open>git\<close>
  holds a directory \<open>a\<close> with a file \<open>a/x\<close>, and a file \<open>b\<close>. \<open>staged\<close> is what
  \<^verbatim>\<open>git diff --cached --name-only\<close> prints, \<open>build_code\<close> the exit code of the build
  of the requested output, \<open>with_action\<close> whether that build leaves an action script.
  The \<open>cachix\<close> client of the example exits with 1 and an action script with 3.
\<close>

definition ex_environ :: "string \<Rightarrow> string option" where
  "ex_environ = [''HOME_IMPURE'' \<mapsto> ''/home'', ''__MAKES_SRC__'' \<mapsto> ''/makes'',
     ''__NIX_STABLE__'' \<mapsto> ''/nix'', ''__NIX_UNSTABLE__'' \<mapsto> ''/nixu'']"

definition ex_cfg :: config where
  "ex_cfg = \<lparr>CWD = ''/w'', environ = ex_environ, OUT_BASE = ''/tmp/out'', tempdir = ''/tmp'',
     platform = ''linux''\<rparr>"

definition ex_cfg_unstable :: config where
  "ex_cfg_unstable = ex_cfg\<lparr>environ := ex_environ(''NIX_UNSTABLE'' \<mapsto> ''1'')\<rparr>"

definition ex_cfg_token :: config where
  "ex_cfg_token = ex_cfg\<lparr>environ := ex_environ(''CACHIX_AUTH_TOKEN'' \<mapsto> ''secret'')\<rparr>"

definition ex_proc :: "string \<Rightarrow> int \<Rightarrow> bool \<Rightarrow> call list \<Rightarrow> filesystem \<Rightarrow> call
    \<Rightarrow> oserror + ((int \<times> string \<times> string) \<times> filesystem)" where
  "ex_proc staged build_code with_action history f c =
     (let a = args c
      in if take 2 a = [''git'', ''init'']
           then Inr ((0, [], []), f(a ! 4 \<mapsto> Dir, a ! 4 @ ''/.git'' \<mapsto> Dir))
         else if take 1 a = [''git''] \<and> a ! 3 = ''checkout''
           then Inr ((0, [], []),
                     f(a ! 2 @ ''/a'' \<mapsto> Dir, a ! 2 @ ''/a/x'' \<mapsto> File ''old'',
                       a ! 2 @ ''/b'' \<mapsto> File ''committed''))
         else if take 1 a = [''git''] \<and> a ! 3 = ''diff'' then Inr ((0, staged, []), f)
         else if take 1 a = [''git''] then Inr ((0, [], []), f)
         else if take 1 a = [''cachix''] then Inr ((1, [], []), f)
         else if take 1 a = [''/nix/bin/nix-build''] \<and> a ! 11 = ''config.attrs''
           then Inr ((0, [], []), f(a ! 34 \<mapsto> File ''attrs''))
         else if take 1 a = [''/nix/bin/nix-build''] \<and> a ! 11 = ''config.cacheAsJson''
           then Inr ((0, [], []), f(a ! 34 \<mapsto> File ''cache''))
         else if take 1 a = [''/nix/bin/nix-build''] then
           Inr ((build_code, [], []),
                if build_code = 0 then
                  (if with_action
                   then f(a ! 34 \<mapsto> Dir, a ! 34 @ ''/makes-action.sh'' \<mapsto> File ''run'')
                   else f(a ! 34 \<mapsto> Dir))
                else f)
         else Inr ((3, [], []), f))"

definition ex_cache :: "(string \<times> string) list list" where
  "ex_cache = [[(''type'', ''cachix''), (''name'', ''makes''),
                (''url'', ''https://makes.cachix.org''), (''pubKey'', ''key'')]]"

definition ex_sys :: "string \<Rightarrow> int \<Rightarrow> bool \<Rightarrow> externals" where
  "ex_sys staged build_code with_action =
     \<lparr>proc = ex_proc staged build_code with_action,
      uuid4_hex = (\<lambda>n. replicate n (CHR ''0'') @ ''f''),
      tmp_name = (\<lambda>n. replicate n (CHR ''x'') @ ''0''),
      json_attrs = (\<lambda>s. if s = ''attrs'' then Some [''__all__'', ''/foo'', ''/bar''] else None),
      json_cache = (\<lambda>s. if s = ''cache'' then Some ex_cache else None)\<rparr>"

definition ex_world :: world where
  "ex_world =
     \<lparr>fs = [''/'' \<mapsto> Dir, ''/tmp'' \<mapsto> Dir, ''/w'' \<mapsto> Dir, ''/w/a'' \<mapsto> File ''new'',
             ''/w/b'' \<mapsto> File ''edited''],
      ctime = (\<lambda>p. 0), now = 100, spawned = [], stderr = [], ON_EXIT = [], cleaned = [],
      tmp_count = 0, uuid_count = 0\<rparr>"

definition ex_staged :: string where
  "ex_staged = ''b'' @ [CHR 0x0A]"

definition ex_w0 :: "config \<Rightarrow> world" where
  "ex_w0 cfg = cli_banner cfg (startup cfg ex_world)"

definition ex_w1 :: "config \<Rightarrow> externals \<Rightarrow> world" where
  "ex_w1 cfg sys = snd (get_head cfg sys (ex_w0 cfg) ''.'')"

definition ex_w2 :: "config \<Rightarrow> externals \<Rightarrow> world" where
  "ex_w2 cfg sys = snd (get_attrs cfg sys (ex_w1 cfg sys) ''.'' ''/tmp/makes-0'')"

definition ex_w3 :: "config \<Rightarrow> externals \<Rightarrow> world" where
  "ex_w3 cfg sys = snd (get_cache cfg sys (ex_w2 cfg sys) ''.'' ''/tmp/makes-0'')"

definition ex_build :: "config \<Rightarrow> externals \<Rightarrow> (exn + string list) \<times> world" where
  "ex_build cfg sys =
     nix_build cfg sys (ex_w3 cfg sys) (build_attr cfg ''/tmp/makes-0'' ''/foo'') (Some ex_cache)
       ''/tmp/makes-0'' ''/tmp/out/result-foo''"

definition ex_bargs :: "config \<Rightarrow> externals \<Rightarrow> string list" where
  "ex_bargs cfg sys = (case fst (ex_build cfg sys) of Inr a \<Rightarrow> a | Inl e \<Rightarrow> [])"

definition ex_w5 :: "config \<Rightarrow> externals \<Rightarrow> world" where
  "ex_w5 cfg sys = snd (run sys (snd (ex_build cfg sys)) (ex_bargs cfg sys) None False)"

definition ex_w6 :: "config \<Rightarrow> externals \<Rightarrow> world" where
  "ex_w6 cfg sys = snd (cache_push cfg sys (ex_w5 cfg sys) ex_cache ''/tmp/out/result-foo'')"

definition ex_typechange :: externals where
  "ex_typechange = ex_sys (''a'' @ [CHR 0x0A] @ ''a/x'' @ [CHR 0x0A]) 0 False"

definition ex_gone :: externals where
  "ex_gone = ex_sys (''n'' @ [CHR 0x0A]) 0 False"

definition ex_v1 :: world where
  "ex_v1 = snd (clone_src ex_cfg ex_gone (ex_w0 ex_cfg) ''.'')"

definition ex_v2 :: world where
  "ex_v2 = snd (run ex_gone ex_v1 [''git'', ''-C'', ''.'', ''diff'', ''--cached'', ''--name-only'']
                  None True)"

definition ex_v3 :: world where
  "ex_v3 = snd (run ex_gone ex_v2 [''git'', ''-C'', ''.'', ''ls-files'', ''--modified''] None True)"

text \<open>
  Runs in which the build succeeds and leaves an action script, and something is wrong
  after it: a cache configuration whose entry has no \<open>type\<close>, one whose \<open>cachix\<close>
  entry has no \<open>name\<close>, an action script that cannot be started (it has no execute
  permission), and a machine without the \<open>cachix\<close> client. \<open>ex_built\<close> is the call
  of \<^verbatim>\<open>_run\<close> for the build of \<open>/foo\<close> under the cache configuration \<open>cache\<close>.
\<close>

definition ex_cache_untyped :: "(string \<times> string) list list" where
  "ex_cache_untyped = [[(''name'', ''makes''), (''url'', ''https://makes.cachix.org''),
                        (''pubKey'', ''key'')]]"

definition ex_cache_unnamed :: "(string \<times> string) list list" where
  "ex_cache_unnamed = [[(''type'', ''cachix''), (''url'', ''https://makes.cachix.org''),
                        (''pubKey'', ''key'')]]"

definition ex_sys_untyped :: externals where
  "ex_sys_untyped =
     (ex_sys ex_staged 0 True)
       \<lparr>json_cache := (\<lambda>s. if s = ''cache'' then Some ex_cache_untyped else None)\<rparr>"

definition ex_sys_unnamed :: externals where
  "ex_sys_unnamed =
     (ex_sys ex_staged 0 True)
       \<lparr>json_cache := (\<lambda>s. if s = ''cache'' then Some ex_cache_unnamed else None)\<rparr>"

definition ex_sys_locked :: externals where
  "ex_sys_locked =
     (ex_sys ex_staged 0 True)
       \<lparr>proc := (\<lambda>history f c.
                  if take 1 (args c) = [''/tmp/out/result-foo/makes-action.sh'']
                  then Inl PermissionError
                  else ex_proc ex_staged 0 True history f c)\<rparr>"

definition ex_sys_no_cachix :: externals where
  "ex_sys_no_cachix =
     (ex_sys ex_staged 0 True)
       \<lparr>proc := (\<lambda>history f c.
                  if take 1 (args c) = [''cachix''] then Inl FileNotFoundError
                  else ex_proc ex_staged 0 True history f c)\<rparr>"

definition ex_built :: "config \<Rightarrow> externals \<Rightarrow> (string \<times> string) list list
    \<Rightarrow> (exn + int \<times> string \<times> string) \<times> world" where
  "ex_built cfg sys cache =
     (case nix_build cfg sys (ex_w3 cfg sys) (build_attr cfg ''/tmp/makes-0'' ''/foo'') (Some cache)
             ''/tmp/makes-0'' ''/tmp/out/result-foo'' of
        (Inl e, w4) \<Rightarrow> (Inl e, w4)
      | (Inr bargs, w4) \<Rightarrow> run sys w4 bargs None False)"

definition ex_cached_world :: "real \<Rightarrow> world" where
  "ex_cached_world t =
     ex_world\<lparr>fs := (fs ex_world)(''/home/.cache/makes/sources/github-o-r-main'' \<mapsto> Dir,
                  ''/home/.cache/makes/sources/github-o-r-main/.git'' \<mapsto> Dir),
               now := t\<rparr>"

section \<open>Lemmas\<close>

text \<open>
  Percent-encoding is injective and leaves no slash, so the remote URL of a hosted
  reference determines the owner and the repository.
\<close>

lemma hexdigit_inj: "m < 16 \<Longrightarrow> n < 16 \<Longrightarrow> hexdigit m = hexdigit n \<Longrightarrow> m = n"
proof -
  assume a: "m < 16" "n < 16" "hexdigit m = hexdigit n"
  have d: "distinct ''0123456789ABCDEF''" by simp
  have "''0123456789ABCDEF'' ! m = ''0123456789ABCDEF'' ! n"
    using a by (simp add: hexdigit_def)
  then show ?thesis
    using nth_eq_iff_index_eq [OF d, of m n] a by simp
qed

lemma of_char_less_256: "(of_char c :: nat) < 256"
  by (cases c) simp

lemma quote_byte_percent_inj:
  assumes "hexdigit (of_char x div 16) = hexdigit (of_char y div 16)"
    and "hexdigit (of_char x mod 16) = hexdigit (of_char y mod 16)"
  shows "x = y"
proof -
  have x: "(of_char x :: nat) < 256" and y: "(of_char y :: nat) < 256"
    by (rule of_char_less_256)+
  have "(of_char x :: nat) div 16 < 16" and "(of_char y :: nat) div 16 < 16"
    using x y by (simp_all add: div_less_iff_less_mult)
  then have "(of_char x :: nat) div 16 = of_char y div 16"
    using assms(1) by (rule hexdigit_inj)
  moreover have "(of_char x :: nat) mod 16 = of_char y mod 16"
    using hexdigit_inj [OF _ _ assms(2)] by simp
  ultimately have "(of_char x :: nat) = of_char y"
    by (metis div_mult_mod_eq)
  then show ?thesis by simp
qed

lemma unreserved_not_special:
  "unreserved c \<Longrightarrow> c \<noteq> CHR ''+'' \<and> c \<noteq> CHR ''%'' \<and> c \<noteq> CHR ''/'' \<and> c \<noteq> CHR '' ''"
  by (auto simp: unreserved_def)

lemma hexdigit_not_slash: "hexdigit n \<noteq> CHR ''/''" "CHR ''/'' \<noteq> hexdigit n"
proof -
  have "n mod 16 < 16" by simp
  then have "hexdigit n \<in> set ''0123456789ABCDEF''"
    unfolding hexdigit_def by (intro nth_mem) simp
  then show "hexdigit n \<noteq> CHR ''/''" by auto
  then show "CHR ''/'' \<noteq> hexdigit n" by auto
qed

lemma quote_byte_no_slash: "CHR ''/'' \<notin> set (quote_byte c)"
  using unreserved_not_special [of c] hexdigit_not_slash
  by (auto simp: quote_byte_def)

lemma url_quote_no_slash: "CHR ''/'' \<notin> set (url_quote s)"
  by (induction s) (simp_all add: url_quote_def quote_byte_no_slash)

lemma quote_byte_append_inj:
  "quote_byte x @ xs = quote_byte y @ ys \<Longrightarrow> x = y \<and> xs = ys"
  using unreserved_not_special [of x] unreserved_not_special [of y]
  by (auto simp: quote_byte_def split: if_splits dest: quote_byte_percent_inj)

lemma url_quote_inj: "url_quote a = url_quote b \<Longrightarrow> a = b"
proof (induction a arbitrary: b)
  case Nil
  then show ?case
    by (cases b) (auto simp: url_quote_def quote_byte_def split: if_splits)
next
  case (Cons x a)
  show ?case
  proof (cases b)
    case Nil
    with Cons.prems show ?thesis
      by (auto simp: url_quote_def quote_byte_def split: if_splits)
  next
    case (Cons y b')
    with Cons.prems have "quote_byte x @ url_quote a = quote_byte y @ url_quote b'"
      by (simp add: url_quote_def)
    then have "x = y" and "url_quote a = url_quote b'"
      using quote_byte_append_inj by blast+
    with Cons.IH Cons show ?thesis by simp
  qed
qed

lemma github_remote_injective:
  assumes "re_match ''github:'' s = Some (owner, repo, v)"
    and "re_match ''github:'' s' = Some (owner', repo', v')"
    and "clone_src_github s = Some (key, remote, x)"
    and "clone_src_github s' = Some (key', remote, x')"
  shows "owner = owner' \<and> repo = repo'"
proof -
  have "url_quote owner @ CHR ''/'' # url_quote repo = url_quote owner' @ CHR ''/'' # url_quote repo'"
    using assms by (auto simp: clone_src_github_def Let_def)
  then have "url_quote owner = url_quote owner' \<and> url_quote repo = url_quote repo'"
    using url_quote_no_slash by (simp add: append_Cons_eq_iff)
  then show ?thesis using url_quote_inj by blast
qed

lemma gitlab_remote_injective:
  assumes "re_match ''gitlab:'' s = Some (owner, repo, v)"
    and "re_match ''gitlab:'' s' = Some (owner', repo', v')"
    and "clone_src_gitlab s = Some (key, remote, x)"
    and "clone_src_gitlab s' = Some (key', remote, x')"
  shows "owner = owner' \<and> repo = repo'"
proof -
  have "url_quote owner @ CHR ''/'' # (url_quote repo @ ''.git'')
      = url_quote owner' @ CHR ''/'' # (url_quote repo' @ ''.git'')"
    using assms by (auto simp: clone_src_gitlab_def Let_def)
  then have "url_quote owner = url_quote owner' \<and> url_quote repo = url_quote repo'"
    using url_quote_no_slash by (simp add: append_Cons_eq_iff)
  then show ?thesis using url_quote_inj by blast
qed


lemma pairI: "fst x = a \<Longrightarrow> snd x = b \<Longrightarrow> x = (a, b)"
  by auto


text \<open>What \<^verbatim>\<open>cleanup\<close> leaves alone, and how the process ends after \<^verbatim>\<open>cli\<close>.\<close>

lemma run_exit_action_frame:
  "spawned (snd (run_exit_action wd a w)) = spawned w"
  "stderr (snd (run_exit_action wd a w)) = stderr w"
  "ON_EXIT (snd (run_exit_action wd a w)) = ON_EXIT w"
  "cleaned (snd (run_exit_action wd a w)) = cleaned w @ [a]"
  by (cases a; simp split: sum.splits)+

lemma cleanup_actions_frame:
  "spawned (cleanup_actions wd as w) = spawned w"
  "stderr (cleanup_actions wd as w) = stderr w"
  "ON_EXIT (cleanup_actions wd as w) = ON_EXIT w"
  "cleaned (cleanup_actions wd as w) = cleaned w @ as"
  by (induction as arbitrary: w; simp add: run_exit_action_frame)+

lemma cleanup_frame:
  "spawned (cleanup cfg w) = spawned w"
  "stderr (cleanup cfg w) = stderr w"
  "ON_EXIT (cleanup cfg w) = ON_EXIT w"
  "cleaned (cleanup cfg w) = cleaned w @ ON_EXIT w"
  by (simp_all add: cleanup_def cleanup_actions_frame)

lemma main_OSError:
  "cli cfg sys w argv = (OSError k q, w') \<Longrightarrow> main cfg sys w argv = (OSError k q, w')"
  by (simp add: main_def)

lemma program_SystemExit:
  "cli cfg sys (startup cfg w) argv = (SystemExit code, w') \<Longrightarrow>
   program cfg sys w argv = (Exited code, cleanup cfg w')"
  by (simp add: program_def main_def outcome_of_def)



text \<open>
  The file operations of the loop of \<^verbatim>\<open>_get_head\<close> raise nothing but \<open>OSError\<close>, and
  \<^verbatim>\<open>os.makedirs\<close> adds nothing but directories.
\<close>

lemma mkdir_raises: "mkdir wd f n = Inl e \<Longrightarrow> \<exists>k q. e = OSError k q"
  by (auto simp: mkdir_def split: if_splits option.splits node.splits)

lemma mkdir_adds_dir: "mkdir wd f n = Inr f' \<Longrightarrow> f' x = f x \<or> (f x = None \<and> f' x = Some Dir)"
  by (auto simp: mkdir_def split: if_splits option.splits node.splits)

lemma makedirs_raises: "makedirs wd f n = Inl e \<Longrightarrow> \<exists>k q. e = OSError k q"
proof (induction wd f n arbitrary: e rule: makedirs.induct)
  case (1 wd f name)
  show ?case
  proof (cases "makedirs_head name \<noteq> [] \<and> makedirs_tail name \<noteq> []
         \<and> \<not> exists_path wd f (makedirs_head name)")
    case True
    then show ?thesis
      using "1.prems" "1.IH" [OF True]
      by (subst (asm) makedirs.simps)
        (auto split: sum.splits exn.splits oserror.splits if_splits dest: mkdir_raises)
  next
    case False
    then show ?thesis
      using "1.prems" by (subst (asm) makedirs.simps) (auto dest: mkdir_raises)
  qed
qed

lemma makedirs_adds_dir:
  "makedirs wd f n = Inr f' \<Longrightarrow> f' x = f x \<or> (f x = None \<and> f' x = Some Dir)"
proof (induction wd f n arbitrary: f' rule: makedirs.induct)
  case (1 wd f name)
  show ?case
  proof (cases "makedirs_head name \<noteq> [] \<and> makedirs_tail name \<noteq> []
         \<and> \<not> exists_path wd f (makedirs_head name)")
    case True
    note IH = "1.IH" [OF True]
    from "1.prems" True
    have "(\<exists>q. makedirs wd f (makedirs_head name) = Inl (OSError FileExistsError q)
              \<and> (f' = f \<or> mkdir wd f name = Inr f'))
          \<or> (\<exists>f1. makedirs wd f (makedirs_head name) = Inr f1 \<and> (f' = f1 \<or> mkdir wd f1 name = Inr f'))"
      by (subst (asm) makedirs.simps)
        (auto split: sum.splits exn.splits oserror.splits if_splits)
    then consider (skip) "f' = f" | (top) "mkdir wd f name = Inr f'"
      | (rec) f1 where "makedirs wd f (makedirs_head name) = Inr f1" "f' = f1"
      | (both) f1 where "makedirs wd f (makedirs_head name) = Inr f1" "mkdir wd f1 name = Inr f'"
      by blast
    then show ?thesis
    proof cases
      case skip
      then show ?thesis by simp
    next
      case top
      then show ?thesis by (rule mkdir_adds_dir)
    next
      case rec
      then show ?thesis using IH by simp
    next
      case both
      from IH [OF both(1)] mkdir_adds_dir [OF both(2), of x] show ?thesis by auto
    qed
  next
    case False
    then show ?thesis
      using "1.prems" by (subst (asm) makedirs.simps) (auto dest: mkdir_adds_dir)
  qed
qed

lemma copy_raises: "copy wd f a b = Inl e \<Longrightarrow> \<exists>k q. e = OSError k q"
  by (auto simp: copy_def Let_def split: if_splits option.splits node.splits)

lemma remove_raises: "remove wd f a = Inl e \<Longrightarrow> \<exists>k q. e = OSError k q"
  by (auto simp: remove_def split: option.splits node.splits)

lemma copy_paths_raises:
  "copy_paths wd src head ps f = (Inl e, f') \<Longrightarrow> \<exists>k q. e = OSError k q"
proof (induction ps arbitrary: f)
  case Nil
  then show ?case by simp
next
  case (Cons p ps)
  from Cons.prems show ?case
    by (auto simp: Let_def split: sum.splits if_splits
        dest: makedirs_raises copy_raises remove_raises Cons.IH)
qed

lemma copy_paths_append:
  "copy_paths wd src head (ps @ qs) f =
     (case copy_paths wd src head ps f of
        (Inl e, f') \<Rightarrow> (Inl e, f')
      | (Inr u, f') \<Rightarrow> copy_paths wd src head qs f')"
  by (induction ps arbitrary: f) (auto simp: Let_def split: sum.splits)

lemma copy_paths_missing_raises:
  assumes "\<not> exists_path wd f (join src p)" and "\<not> exists_path wd f (join head p)"
  shows "\<exists>k q f'. copy_paths wd src head (p # ps) f = (Inl (OSError k q), f')"
proof (cases "exists_path wd f (dirname (join head p))")
  case True
  then show ?thesis using assms
    by (auto simp: Let_def remove_def exists_path_def)
next
  case False
  show ?thesis
  proof (cases "makedirs wd f (dirname (join head p))")
    case (Inl e)
    then show ?thesis using False makedirs_raises [OF Inl] by (auto simp: Let_def)
  next
    case (Inr f1)
    have d: "f1 (abspath wd (join head p)) = None \<or> f1 (abspath wd (join head p)) = Some Dir"
      using makedirs_adds_dir [OF Inr, of "abspath wd (join head p)"] assms(2)
      by (auto simp: exists_path_def)
    have s: "f1 (abspath wd (join src p)) = None \<or> f1 (abspath wd (join src p)) = Some Dir"
      using makedirs_adds_dir [OF Inr, of "abspath wd (join src p)"] assms(1)
      by (auto simp: exists_path_def)
    show ?thesis
    proof (cases "exists_path wd f1 (join src p)")
      case True
      with s have "f1 (abspath wd (join src p)) = Some Dir" by (auto simp: exists_path_def)
      then have "\<exists>k q. copy wd f1 (join src p) (join head p) = Inl (OSError k q)"
        by (auto simp: copy_def Let_def)
      then show ?thesis using False Inr True by (auto simp: Let_def)
    next
      case nex: False
      from d have "\<exists>k q. remove wd f1 (join head p) = Inl (OSError k q)"
        by (auto simp: remove_def)
      then show ?thesis using False Inr nex by (auto simp: Let_def)
    qed
  qed
qed

text \<open>
  The checkout of a local reference. Whatever \<^verbatim>\<open>_get_head\<close> returns has no \<open>.git\<close>,
  and every regular file in it was in the file system before the loop or is a copy of
  the working file of a listed path.
\<close>

lemma makedirs_keeps_files:
  "makedirs wd f n = Inr f' \<Longrightarrow> f' x = Some (File c) \<Longrightarrow> f x = Some (File c)"
  using makedirs_adds_dir [of wd f n f' x] by auto

lemma copy_file_origin:
  "copy wd f a b = Inr f' \<Longrightarrow> f' x = Some (File c) \<Longrightarrow>
   f x = Some (File c) \<or> f (abspath wd a) = Some (File c)"
  by (auto simp: copy_def Let_def split: if_splits option.splits node.splits)

lemma remove_file_origin:
  "remove wd f b = Inr f' \<Longrightarrow> f' x = Some (File c) \<Longrightarrow> f x = Some (File c)"
  by (auto simp: remove_def split: if_splits option.splits node.splits)

lemma copy_paths_files_origin:
  "copy_paths wd src head ps f = (r, f') \<Longrightarrow> f' x = Some (File c) \<Longrightarrow>
   f x = Some (File c) \<or> (\<exists>p\<in>set ps. f (abspath wd (join src p)) = Some (File c))"
proof (induction ps arbitrary: f x)
  case Nil
  then show ?case by simp
next
  case (Cons p ps)
  define f1 where "f1 = (if \<not> exists_path wd f (dirname (join head p))
      then makedirs wd f (dirname (join head p)) else Inr f)"
  show ?case
  proof (cases f1)
    case (Inl e)
    with Cons.prems show ?thesis by (simp add: Let_def f1_def)
  next
    case (Inr g)
    have g: "g y = Some (File d) \<Longrightarrow> f y = Some (File d)" for y d
      using Inr makedirs_keeps_files [of wd f "dirname (join head p)" g y d]
      by (auto simp: f1_def split: if_splits)
    define f2 where "f2 = (if exists_path wd g (join src p)
      then copy wd g (join src p) (join head p) else remove wd g (join head p))"
    show ?thesis
    proof (cases f2)
      case (Inl e)
      with Cons.prems Inr have "f' = g" by (simp add: Let_def f1_def f2_def)
      with Cons.prems(2) g show ?thesis by simp
    next
      case step: (Inr h)
      have h: "h y = Some (File d) \<Longrightarrow>
          f y = Some (File d) \<or> f (abspath wd (join src p)) = Some (File d)" for y d
        using step copy_file_origin [of wd g "join src p" "join head p" h y d]
          remove_file_origin [of wd g "join head p" h y d] g
        by (auto simp: f2_def split: if_splits)
      have rest: "copy_paths wd src head ps h = (r, f')"
        using Cons.prems(1) Inr step by (simp add: Let_def f1_def f2_def)
      from Cons.IH [OF rest Cons.prems(2)] h show ?thesis by auto
    qed
  qed
qed

lemma get_head_no_git:
  assumes "get_head cfg sys w src = (Inr head, w')"
  shows "\<not> exists_path (CWD cfg) (fs w') (join head ''.git'')
    \<and> (\<forall>x. under (abspath (CWD cfg) (join head ''.git'')) x \<longrightarrow> fs w' x = None)"
  using assms
  by (auto simp: get_head_def rmtree_def exists_path_def
      split: prod.splits sum.splits if_splits option.splits node.splits)

lemma rmtree_file_origin:
  "rmtree wd f p flag = Inr f' \<Longrightarrow> f' x = Some (File c) \<Longrightarrow> f x = Some (File c)"
  by (auto simp: rmtree_def split: if_splits option.splits node.splits)

lemma get_head_files_origin:
  assumes "is_src_local cfg src"
    and "clone_src cfg sys w src = (Inr head, w1)"
    and "run sys w1 [''git'', ''-C'', src, ''diff'', ''--cached'', ''--name-only''] None True
           = (Inr (0, stdout2, stderr2), w2)"
    and "run sys w2 [''git'', ''-C'', src, ''ls-files'', ''--modified''] None True
           = (Inr (0, stdout3, stderr3), w3)"
    and "get_head cfg sys w src = (Inr head', w')"
    and "fs w' x = Some (File c)"
  shows "fs w3 x = Some (File c)
    \<or> (\<exists>p\<in>set (splitlines stdout2) \<union> set (splitlines stdout3).
          fs w3 (abspath (CWD cfg) (join src p)) = Some (File c))"
proof -
  let ?ps = "sort (remdups (splitlines stdout2 @ splitlines stdout3))"
  obtain r f where loop: "copy_paths (CWD cfg) src head ?ps (fs w3) = (r, f)"
    by (cases "copy_paths (CWD cfg) src head ?ps (fs w3)")
  from assms(1-5) loop obtain u where "r = Inr u"
    and rm: "rmtree (CWD cfg) f (join head ''.git'') False = Inr (fs w')"
    by (auto simp: get_head_def split: sum.splits)
  from rmtree_file_origin [OF rm assms(6)] have "f x = Some (File c)" .
  from copy_paths_files_origin [OF loop this] show ?thesis by auto
qed

text \<open>
  The loop puts every listed path in its place when the places are what they should
  be: different listed paths have different destinations, no working file of a listed
  path is itself a destination, no destination lies in \<open>.git\<close>, and no destination is
  a directory of the returned checkout. Then each destination holds the regular file
  that the working directory has at the path (\<open>file_at\<close>), or nothing when the working
  directory has none, and everywhere else outside \<open>.git\<close> the file system is as it was
  before the loop, but for the directories made for the copies.
\<close>

lemma makedirs_keeps_dirs:
  "makedirs wd f n = Inr f' \<Longrightarrow> f x = Some Dir \<Longrightarrow> f' x = Some Dir"
  using makedirs_adds_dir [of wd f n f' x] by auto

lemma copy_effect:
  assumes "copy wd f a b = Inr f'"
  shows "\<exists>c. f (abspath wd a) = Some (File c)
    \<and> (if isdir wd f b
        then f' = f(abspath wd (join b (basename a)) \<mapsto> File c)
          \<and> f (abspath wd (join b (basename a))) \<noteq> Some Dir
        else f' = f(abspath wd b \<mapsto> File c))"
  using assms
  by (auto simp: copy_def Let_def isdir_def split: if_splits option.splits node.splits)

lemma remove_effect:
  assumes "remove wd f b = Inr f'"
  shows "(\<exists>c. f (abspath wd b) = Some (File c)) \<and> f' = f(abspath wd b := None)"
  using assms by (auto simp: remove_def split: option.splits node.splits)

lemma copy_keeps_dirs: "copy wd f a b = Inr f' \<Longrightarrow> f x = Some Dir \<Longrightarrow> f' x = Some Dir"
  using copy_effect [of wd f a b f'] by (auto simp: isdir_def split: if_splits)

lemma remove_keeps_dirs: "remove wd f b = Inr f' \<Longrightarrow> f x = Some Dir \<Longrightarrow> f' x = Some Dir"
  using remove_effect [of wd f b f'] by auto

lemma copy_paths_keeps_dirs:
  "copy_paths wd src head ps f = (Inr u, f') \<Longrightarrow> f x = Some Dir \<Longrightarrow> f' x = Some Dir"
proof (induction ps arbitrary: f)
  case Nil
  then show ?case by simp
next
  case (Cons p ps)
  from Cons.prems(1) obtain g h where
    g: "(if \<not> exists_path wd f (dirname (join head p))
         then makedirs wd f (dirname (join head p)) else Inr f) = Inr g"
    and h: "(if exists_path wd g (join src p)
         then copy wd g (join src p) (join head p) else remove wd g (join head p)) = Inr h"
    and rest: "copy_paths wd src head ps h = (Inr u, f')"
    by (auto simp: Let_def split: sum.splits)
  have "g x = Some Dir"
    using g Cons.prems(2) makedirs_keeps_dirs by (auto split: if_splits)
  then have "h x = Some Dir"
    using h copy_keeps_dirs remove_keeps_dirs by (auto split: if_splits)
  with rest show ?case by (rule Cons.IH)
qed

definition file_at :: "filesystem \<Rightarrow> string \<Rightarrow> node option" where
  "file_at f k = (case f k of Some (File c) \<Rightarrow> Some (File c) | _ \<Rightarrow> None)"

lemma copy_paths_overlay:
  assumes "copy_paths wd src head ps f = (Inr u, f')"
    and "distinct (map (\<lambda>p. abspath wd (join head p)) ps)"
    and "\<forall>p\<in>set ps. \<forall>q\<in>set ps. abspath wd (join src p) \<noteq> abspath wd (join head q)"
    and "\<forall>p\<in>set ps. f' (abspath wd (join head p)) \<noteq> Some Dir"
  shows "(\<forall>p\<in>set ps. f' (abspath wd (join head p)) = file_at f (abspath wd (join src p)))
    \<and> (\<forall>x. x \<notin> (\<lambda>p. abspath wd (join head p)) ` set ps \<longrightarrow>
            f' x = f x \<or> (f x = None \<and> f' x = Some Dir))"
  using assms
proof (induction ps arbitrary: f)
  case Nil
  then show ?case by simp
next
  case (Cons p ps)
  let ?D = "\<lambda>p. abspath wd (join head p)"
  let ?S = "\<lambda>p. abspath wd (join src p)"
  from Cons.prems(1) obtain g h where
    g: "(if \<not> exists_path wd f (dirname (join head p))
         then makedirs wd f (dirname (join head p)) else Inr f) = Inr g"
    and h: "(if exists_path wd g (join src p)
         then copy wd g (join src p) (join head p) else remove wd g (join head p)) = Inr h"
    and rest: "copy_paths wd src head ps h = (Inr u, f')"
    by (auto simp: Let_def split: sum.splits)
  have fg: "g x = f x \<or> (f x = None \<and> g x = Some Dir)" for x
    using g makedirs_adds_dir [of wd f "dirname (join head p)" g x] by (auto split: if_splits)
  have not_dir: "f' (?D p) \<noteq> Some Dir" using Cons.prems(4) by simp
  have h_not_dir: "h (?D p) \<noteq> Some Dir"
    using copy_paths_keeps_dirs [OF rest] not_dir by blast
  have g_not_dir: "\<not> isdir wd g (join head p)"
    using h h_not_dir copy_keeps_dirs remove_keeps_dirs
    by (auto simp: isdir_def split: if_splits)
  have step: "h = g(?D p := file_at g (?S p))"
  proof (cases "exists_path wd g (join src p)")
    case True
    with h have "copy wd g (join src p) (join head p) = Inr h" by simp
    from copy_effect [OF this] g_not_dir show ?thesis by (auto simp: file_at_def)
  next
    case False
    with h have "remove wd g (join head p) = Inr h" by simp
    from remove_effect [OF this] False show ?thesis
      by (auto simp: file_at_def exists_path_def)
  qed
  have same_file: "file_at g k = file_at f k" for k
    using fg [of k] by (auto simp: file_at_def)
  have hp: "h (?D p) = file_at f (?S p)" using step same_file by simp
  have h_other: "h x = g x" if "x \<noteq> ?D p" for x using step that by simp
  have IH: "(\<forall>q\<in>set ps. f' (?D q) = file_at h (?S q))
    \<and> (\<forall>x. x \<notin> ?D ` set ps \<longrightarrow> f' x = h x \<or> (h x = None \<and> f' x = Some Dir))"
    using Cons.IH [OF rest] Cons.prems(2,3,4) by simp
  have p_fresh: "?D p \<notin> ?D ` set ps" using Cons.prems(2) by auto
  have first: "f' (?D p) = file_at f (?S p)"
    using IH p_fresh not_dir hp by auto
  have later: "f' (?D q) = file_at f (?S q)" if q: "q \<in> set ps" for q
  proof -
    have "?S q \<noteq> ?D p" using Cons.prems(3) q by simp
    then have "h (?S q) = g (?S q)" by (rule h_other)
    then have "file_at h (?S q) = file_at f (?S q)"
      using same_file [of "?S q"] by (simp add: file_at_def)
    with IH q show ?thesis by simp
  qed
  have others: "f' x = f x \<or> (f x = None \<and> f' x = Some Dir)"
    if x: "x \<notin> ?D ` set (p # ps)" for x
  proof -
    from x have "x \<noteq> ?D p" and "x \<notin> ?D ` set ps" by auto
    then have "h x = g x" and "f' x = h x \<or> (h x = None \<and> f' x = Some Dir)"
      using h_other IH by auto
    with fg [of x] show ?thesis by auto
  qed
  from first later others show ?case by auto
qed

lemma rmtree_effect:
  assumes "rmtree wd f p False = Inr f'"
  shows "f' = (\<lambda>x. if x = abspath wd p \<or> under (abspath wd p) x then None else f x)"
  using assms by (auto simp: rmtree_def split: option.splits node.splits if_splits)

lemma get_head_local_steps:
  assumes "is_src_local cfg src"
    and "clone_src cfg sys w src = (Inr head, w1)"
    and "run sys w1 [''git'', ''-C'', src, ''diff'', ''--cached'', ''--name-only''] None True
           = (Inr (0, stdout2, stderr2), w2)"
    and "run sys w2 [''git'', ''-C'', src, ''ls-files'', ''--modified''] None True
           = (Inr (0, stdout3, stderr3), w3)"
    and "get_head cfg sys w src = (Inr head', w')"
  shows "\<exists>u f. head' = head
    \<and> copy_paths (CWD cfg) src head (sort (remdups (splitlines stdout2 @ splitlines stdout3))) (fs w3)
        = (Inr u, f)
    \<and> rmtree (CWD cfg) f (join head ''.git'') False = Inr (fs w')"
proof -
  let ?ps = "sort (remdups (splitlines stdout2 @ splitlines stdout3))"
  obtain r f where loop: "copy_paths (CWD cfg) src head ?ps (fs w3) = (r, f)"
    by (cases "copy_paths (CWD cfg) src head ?ps (fs w3)")
  from assms loop show ?thesis
    by (auto simp: get_head_def split: sum.splits)
qed

lemma get_head_overlay:
  fixes cfg src head stdout2 stdout3
  defines "D \<equiv> \<lambda>p. abspath (CWD cfg) (join head p)"
  defines "S \<equiv> \<lambda>p. abspath (CWD cfg) (join src p)"
  defines "G \<equiv> abspath (CWD cfg) (join head ''.git'')"
  defines "P \<equiv> set (splitlines stdout2) \<union> set (splitlines stdout3)"
  assumes "is_src_local cfg src"
    and "clone_src cfg sys w src = (Inr head, w1)"
    and "run sys w1 [''git'', ''-C'', src, ''diff'', ''--cached'', ''--name-only''] None True
           = (Inr (0, stdout2, stderr2), w2)"
    and "run sys w2 [''git'', ''-C'', src, ''ls-files'', ''--modified''] None True
           = (Inr (0, stdout3, stderr3), w3)"
    and "get_head cfg sys w src = (Inr head', w')"
    and "inj_on D P"
    and "\<forall>p\<in>P. \<forall>q\<in>P. S p \<noteq> D q"
    and "\<forall>p\<in>P. D p \<noteq> G \<and> \<not> under G (D p)"
    and "\<forall>p\<in>P. fs w' (D p) \<noteq> Some Dir"
  shows "(\<forall>p\<in>P. fs w' (D p) = file_at (fs w3) (S p))
    \<and> (\<forall>x. x \<notin> D ` P \<and> x \<noteq> G \<and> \<not> under G x \<longrightarrow>
           fs w' x = fs w3 x \<or> (fs w3 x = None \<and> fs w' x = Some Dir))"
proof -
  let ?ps = "sort (remdups (splitlines stdout2 @ splitlines stdout3))"
  have set_ps: "set ?ps = P" by (simp add: P_def)
  from get_head_local_steps [OF assms(5-9)] obtain u f where
    loop: "copy_paths (CWD cfg) src head ?ps (fs w3) = (Inr u, f)"
    and rm: "rmtree (CWD cfg) f (join head ''.git'') False = Inr (fs w')"
    by blast
  have final: "fs w' x = (if x = G \<or> under G x then None else f x)" for x
    using rmtree_effect [OF rm] by (simp add: G_def)
  have kept: "fs w' (D p) = f (D p)" if "p \<in> P" for p
    using that assms(12) final by simp
  have a: "distinct (map (\<lambda>p. abspath (CWD cfg) (join head p)) ?ps)"
    using assms(10) by (simp add: distinct_map D_def P_def)
  have b: "\<forall>p\<in>set ?ps. \<forall>q\<in>set ?ps.
      abspath (CWD cfg) (join src p) \<noteq> abspath (CWD cfg) (join head q)"
    using assms(11) unfolding set_ps S_def D_def .
  have c: "\<forall>p\<in>set ?ps. f (abspath (CWD cfg) (join head p)) \<noteq> Some Dir"
    using assms(13) kept unfolding set_ps D_def by simp
  from copy_paths_overlay [OF loop a b c]
  have over: "\<forall>p\<in>P. f (D p) = file_at (fs w3) (S p)"
    and rest: "\<forall>x. x \<notin> D ` P \<longrightarrow> f x = fs w3 x \<or> (fs w3 x = None \<and> f x = Some Dir)"
    unfolding set_ps D_def S_def by blast+
  show ?thesis using over rest kept final by auto
qed

text \<open>The lines of the help, and the steps of \<^verbatim>\<open>cli\<close> after a successful build.\<close>

lemma foldl_log:
  "stderr (foldl log w ls) = stderr w @ ls"
  "spawned (foldl log w ls) = spawned w"
  by (induction ls arbitrary: w; simp add: log_def)+

lemma help_and_exit_listing:
  "\<exists>before w'. help_and_exit w (Some src) (Some attrs) None = (SystemExit 1, w')
     \<and> stderr w' = before @ [''[OUTPUT] can be:'']
            @ map (\<lambda>a. ''  '' @ a) (filter (\<lambda>a. a \<notin> set hidden_attrs) attrs)
            @ [[], ''[ARGS] are passed to the output (if supported).'']
     \<and> spawned w' = spawned w"
proof (cases src)
  case Nil
  show ?thesis
    by (rule exI [of _ "stderr w @ [''Usage: m [SOURCE] [OUTPUT] [ARGS]...'',
                       [],
                       ''[SOURCE] can be:'',
                       [],
                       ''  A Git repository in the current working directory:'',
                       ''    $ m .'',
                       [],
                       ''  A GitHub repository and revision (branch, commit or tag):'',
                       ''    $ m github:owner/repo@rev'',
                       [],
                       ''  A GitLab repository and revision (branch, commit or tag):'',
                       ''    $ m gitlab:owner/repo@rev'', []]"])
      (simp add: Nil help_and_exit_def Let_def foldl_log log_def)
next
  case (Cons c cs)
  show ?thesis
    by (rule exI [of _ "stderr w @ [''Usage: m [SOURCE] [OUTPUT] [ARGS]...'', [],
                       ''[SOURCE] is currently: '' @ src, []]"])
      (simp add: Cons help_and_exit_def Let_def foldl_log log_def)
qed

lemma program_Traceback:
  assumes "cli cfg sys (startup cfg w) argv = (e, w')"
    and "(\<exists>key. e = KeyError key) \<or> (\<exists>k q. e = OSError k q)"
  shows "program cfg sys w argv = (Traceback e, cleanup cfg w')"
  using assms by (auto simp: program_def main_def outcome_of_def)

lemma cache_push_raises:
  "cache_push cfg sys w cache out = (Inl e, w') \<Longrightarrow>
   (\<exists>key. e = KeyError key) \<or> (\<exists>k q. e = OSError k q)"
proof (induction cache)
  case Nil
  then show ?case by simp
next
  case (Cons c cache)
  then show ?case
    by (auto simp: getitem_def run_def Let_def
        split: option.splits if_splits sum.splits prod.splits)
qed

lemma execute_action_cases:
  assumes "action = \<lparr>args = join out ''makes-action.sh'' # out # rest, cwd = Some (CWD cfg), capture_io = False\<rparr>"
  shows "execute_action cfg sys w rest out =
     (if exists_path (CWD cfg) (fs w) (join out ''makes-action.sh'')
      then (case proc sys (spawned w) (fs w) action of
              Inl k \<Rightarrow> (Inl (OSError k (join out ''makes-action.sh'')),
                        w\<lparr>spawned := spawned w @ [action]\<rparr>)
            | Inr ((code, so, se), f) \<Rightarrow>
                (Inl (SystemExit code), w\<lparr>fs := f, spawned := spawned w @ [action]\<rparr>))
      else (Inr (), w))"
  by (auto simp: execute_action_def Let_def run_def assms split: sum.splits prod.splits)

lemma program_build_succeeded:
  assumes "get_head cfg sys (cli_banner cfg (startup cfg w)) src = (Inr head, w1)"
    and "get_attrs cfg sys w1 src head = (Inr attrs, w2)"
    and "attr \<in> set attrs"
    and "get_cache cfg sys w2 src head = (Inr cache, w3)"
    and "out = join (OUT_BASE cfg) (''result'' @ replace_slash_dash attr)"
    and "nix_build cfg sys w3 (build_attr cfg head attr) (Some cache) head out = (Inr bargs, w4)"
    and "run sys w4 bargs None False = (Inr (0, so, se), w5)"
    and "cache_push cfg sys w5 cache out = (r, w6)"
    and "action = \<lparr>args = join out ''makes-action.sh'' # out # rest, cwd = Some (CWD cfg), capture_io = False\<rparr>"
  shows "program cfg sys w (m # src # attr # rest) =
     (case r of
        Inl e \<Rightarrow> (Traceback e, cleanup cfg w6)
      | Inr u \<Rightarrow>
          if exists_path (CWD cfg) (fs w6) (join out ''makes-action.sh'')
          then (case proc sys (spawned w6) (fs w6) action of
                  Inl k \<Rightarrow>
                    (Traceback (OSError k (join out ''makes-action.sh'')),
                     cleanup cfg (w6\<lparr>spawned := spawned w6 @ [action]\<rparr>))
                | Inr ((code, so', se'), f) \<Rightarrow>
                    (Exited code, cleanup cfg (w6\<lparr>fs := f, spawned := spawned w6 @ [action]\<rparr>)))
          else (Exited 0, cleanup cfg w6))"
proof -
  note steps = assms(1-4) assms(6-8) [unfolded assms(5)]
  note ea = execute_action_cases [OF assms(9), of sys w6, unfolded assms(5)]
  let ?script = "join (join (OUT_BASE cfg) (''result'' @ replace_slash_dash attr)) ''makes-action.sh''"
  show ?thesis
    unfolding assms(5)
  proof (cases r)
    case (Inl e)
    have "cli cfg sys (startup cfg w) (m # src # attr # rest) = (e, w6)"
      using steps Inl by (simp add: cli_def Let_def)
    moreover have "(\<exists>key. e = KeyError key) \<or> (\<exists>k q. e = OSError k q)"
      using assms(8) Inl cache_push_raises by blast
    ultimately show "program cfg sys w (m # src # attr # rest) =
       (case r of
          Inl e \<Rightarrow> (Traceback e, cleanup cfg w6)
        | Inr u \<Rightarrow>
            if exists_path (CWD cfg) (fs w6) ?script
            then (case proc sys (spawned w6) (fs w6) action of
                    Inl k \<Rightarrow>
                      (Traceback (OSError k ?script),
                       cleanup cfg (w6\<lparr>spawned := spawned w6 @ [action]\<rparr>))
                  | Inr ((code, so', se'), f) \<Rightarrow>
                      (Exited code, cleanup cfg (w6\<lparr>fs := f, spawned := spawned w6 @ [action]\<rparr>)))
            else (Exited 0, cleanup cfg w6))"
      using Inl by (simp add: program_Traceback)
  next
    case (Inr u)
    show "program cfg sys w (m # src # attr # rest) =
       (case r of
          Inl e \<Rightarrow> (Traceback e, cleanup cfg w6)
        | Inr u \<Rightarrow>
            if exists_path (CWD cfg) (fs w6) ?script
            then (case proc sys (spawned w6) (fs w6) action of
                    Inl k \<Rightarrow>
                      (Traceback (OSError k ?script),
                       cleanup cfg (w6\<lparr>spawned := spawned w6 @ [action]\<rparr>))
                  | Inr ((code, so', se'), f) \<Rightarrow>
                      (Exited code, cleanup cfg (w6\<lparr>fs := f, spawned := spawned w6 @ [action]\<rparr>)))
            else (Exited 0, cleanup cfg w6))"
    proof (cases "exists_path (CWD cfg) (fs w6) ?script")
      case False
      have "cli cfg sys (startup cfg w) (m # src # attr # rest) = (SystemExit 0, w6)"
        using steps ea Inr False by (simp add: cli_def Let_def)
      then show ?thesis using Inr False by (simp add: program_SystemExit)
    next
      case True
      show ?thesis
      proof (cases "proc sys (spawned w6) (fs w6) action")
        case (Inl k)
        have "cli cfg sys (startup cfg w) (m # src # attr # rest)
            = (OSError k ?script, w6\<lparr>spawned := spawned w6 @ [action]\<rparr>)"
          using steps ea \<open>r = Inr u\<close> True Inl by (simp add: cli_def Let_def)
        then show ?thesis using \<open>r = Inr u\<close> True Inl by (simp add: program_Traceback)
      next
        case (Inr x)
        obtain code so' se' f where x: "x = ((code, so', se'), f)"
          by (metis prod_cases3 surj_pair)
        have "cli cfg sys (startup cfg w) (m # src # attr # rest)
            = (SystemExit code, w6\<lparr>fs := f, spawned := spawned w6 @ [action]\<rparr>)"
          using steps ea \<open>r = Inr u\<close> True Inr x by (simp add: cli_def Let_def)
        then show ?thesis using \<open>r = Inr u\<close> True Inr x by (simp add: program_SystemExit)
      qed
    qed
  qed
qed

lemma cache_push_effect:
  assumes "\<forall>c\<in>set cache. map_of c ''type'' \<noteq> None
             \<and> (map_of c ''type'' = Some ''cachix'' \<longrightarrow> map_of c ''name'' \<noteq> None)"
  shows "if environ cfg ''CACHIX_AUTH_TOKEN'' \<noteq> None \<and> (\<exists>c\<in>set cache. map_of c ''type'' = Some ''cachix'')
         then \<exists>c\<in>set cache. \<exists>name. map_of c ''type'' = Some ''cachix'' \<and> map_of c ''name'' = Some name
                \<and> spawned (snd (cache_push cfg sys w cache out))
                   = spawned w @ [\<lparr>args = [''cachix'', ''push'', ''-c'', ''0'', name, out],
                                   cwd = None, capture_io = False\<rparr>]
                \<and> stderr (snd (cache_push cfg sys w cache out)) = stderr w @ [''Pushing to cache'']
                \<and> fst (cache_push cfg sys w cache out)
                   = (case proc sys (spawned w) (fs w)
                             \<lparr>args = [''cachix'', ''push'', ''-c'', ''0'', name, out],
                              cwd = None, capture_io = False\<rparr> of
                        Inl k \<Rightarrow> Inl (OSError k ''cachix'')
                      | Inr x \<Rightarrow> Inr ())
         else cache_push cfg sys w cache out = (Inr (), w)"
  using assms
proof (induction cache)
  case Nil
  then show ?case by simp
next
  case (Cons c cache)
  obtain t where t: "map_of c ''type'' = Some t"
    using Cons.prems by auto
  show ?case
  proof (cases "t = ''cachix'' \<and> environ cfg ''CACHIX_AUTH_TOKEN'' \<noteq> None")
    case True
    then obtain n where n: "map_of c ''name'' = Some n"
      using Cons.prems t by auto
    show ?thesis
      using True t n
      by (auto simp: getitem_def run_def Let_def log_def split: prod.splits sum.splits)
  next
    case False
    have "cache_push cfg sys w (c # cache) out = cache_push cfg sys w cache out"
      using False t by (auto simp: getitem_def)
    moreover have "(\<exists>c'\<in>set (c # cache). map_of c' ''type'' = Some ''cachix'') \<and> environ cfg ''CACHIX_AUTH_TOKEN'' \<noteq> None
       \<longleftrightarrow> (\<exists>c'\<in>set cache. map_of c' ''type'' = Some ''cachix'') \<and> environ cfg ''CACHIX_AUTH_TOKEN'' \<noteq> None"
      using False t by auto
    ultimately show ?thesis using Cons.IH Cons.prems by (auto split: if_splits)
  qed
qed

section \<open>Facts about the example runs\<close>

lemma ex_failing_head:
  "get_head ex_cfg (ex_sys ex_staged 7 True) (cli_banner ex_cfg (startup ex_cfg ex_world)) ''.''
     = (Inr ''/tmp/makes-0'', ex_w1 ex_cfg (ex_sys ex_staged 7 True))"
  by (rule pairI, code_simp) (simp add: ex_w1_def ex_w0_def)

lemma ex_failing_attrs:
  "get_attrs ex_cfg (ex_sys ex_staged 7 True) (ex_w1 ex_cfg (ex_sys ex_staged 7 True)) ''.'' ''/tmp/makes-0''
     = (Inr [''__all__'', ''/foo'', ''/bar''], ex_w2 ex_cfg (ex_sys ex_staged 7 True))"
  by (rule pairI, code_simp) (simp add: ex_w2_def)

lemma ex_failing_cache:
  "get_cache ex_cfg (ex_sys ex_staged 7 True) (ex_w2 ex_cfg (ex_sys ex_staged 7 True)) ''.'' ''/tmp/makes-0''
     = (Inr ex_cache, ex_w3 ex_cfg (ex_sys ex_staged 7 True))"
  by (rule pairI, code_simp) (simp add: ex_w3_def)

lemma ex_failing_build:
  "nix_build ex_cfg (ex_sys ex_staged 7 True) (ex_w3 ex_cfg (ex_sys ex_staged 7 True)) (build_attr ex_cfg ''/tmp/makes-0'' ''/foo'')
     (Some ex_cache) ''/tmp/makes-0'' ''/tmp/out/result-foo''
     = (Inr (ex_bargs ex_cfg (ex_sys ex_staged 7 True)), snd (ex_build ex_cfg (ex_sys ex_staged 7 True)))"
  by (rule pairI, code_simp) (simp add: ex_build_def)

lemma ex_failing_run:
  "run (ex_sys ex_staged 7 True) (snd (ex_build ex_cfg (ex_sys ex_staged 7 True))) (ex_bargs ex_cfg (ex_sys ex_staged 7 True)) None False
     = (Inr (7, [], []), ex_w5 ex_cfg (ex_sys ex_staged 7 True))"
  by (rule pairI, code_simp) (simp add: ex_w5_def)

lemma ex_acting_head:
  "get_head ex_cfg (ex_sys ex_staged 0 True) (cli_banner ex_cfg (startup ex_cfg ex_world)) ''.''
     = (Inr ''/tmp/makes-0'', ex_w1 ex_cfg (ex_sys ex_staged 0 True))"
  by (rule pairI, code_simp) (simp add: ex_w1_def ex_w0_def)

lemma ex_acting_attrs:
  "get_attrs ex_cfg (ex_sys ex_staged 0 True) (ex_w1 ex_cfg (ex_sys ex_staged 0 True)) ''.'' ''/tmp/makes-0''
     = (Inr [''__all__'', ''/foo'', ''/bar''], ex_w2 ex_cfg (ex_sys ex_staged 0 True))"
  by (rule pairI, code_simp) (simp add: ex_w2_def)

lemma ex_acting_cache:
  "get_cache ex_cfg (ex_sys ex_staged 0 True) (ex_w2 ex_cfg (ex_sys ex_staged 0 True)) ''.'' ''/tmp/makes-0''
     = (Inr ex_cache, ex_w3 ex_cfg (ex_sys ex_staged 0 True))"
  by (rule pairI, code_simp) (simp add: ex_w3_def)

lemma ex_acting_build:
  "nix_build ex_cfg (ex_sys ex_staged 0 True) (ex_w3 ex_cfg (ex_sys ex_staged 0 True)) (build_attr ex_cfg ''/tmp/makes-0'' ''/foo'')
     (Some ex_cache) ''/tmp/makes-0'' ''/tmp/out/result-foo''
     = (Inr (ex_bargs ex_cfg (ex_sys ex_staged 0 True)), snd (ex_build ex_cfg (ex_sys ex_staged 0 True)))"
  by (rule pairI, code_simp) (simp add: ex_build_def)

lemma ex_acting_run:
  "run (ex_sys ex_staged 0 True) (snd (ex_build ex_cfg (ex_sys ex_staged 0 True))) (ex_bargs ex_cfg (ex_sys ex_staged 0 True)) None False
     = (Inr (0, [], []), ex_w5 ex_cfg (ex_sys ex_staged 0 True))"
  by (rule pairI, code_simp) (simp add: ex_w5_def)

lemma ex_acting_push:
  "cache_push ex_cfg (ex_sys ex_staged 0 True) (ex_w5 ex_cfg (ex_sys ex_staged 0 True)) ex_cache ''/tmp/out/result-foo''
     = (Inr (), ex_w6 ex_cfg (ex_sys ex_staged 0 True))"
  by (rule pairI, code_simp) (simp add: ex_w6_def)

lemma ex_plain_head:
  "get_head ex_cfg (ex_sys ex_staged 0 False) (cli_banner ex_cfg (startup ex_cfg ex_world)) ''.''
     = (Inr ''/tmp/makes-0'', ex_w1 ex_cfg (ex_sys ex_staged 0 False))"
  by (rule pairI, code_simp) (simp add: ex_w1_def ex_w0_def)

lemma ex_plain_attrs:
  "get_attrs ex_cfg (ex_sys ex_staged 0 False) (ex_w1 ex_cfg (ex_sys ex_staged 0 False)) ''.'' ''/tmp/makes-0''
     = (Inr [''__all__'', ''/foo'', ''/bar''], ex_w2 ex_cfg (ex_sys ex_staged 0 False))"
  by (rule pairI, code_simp) (simp add: ex_w2_def)

lemma ex_plain_cache:
  "get_cache ex_cfg (ex_sys ex_staged 0 False) (ex_w2 ex_cfg (ex_sys ex_staged 0 False)) ''.'' ''/tmp/makes-0''
     = (Inr ex_cache, ex_w3 ex_cfg (ex_sys ex_staged 0 False))"
  by (rule pairI, code_simp) (simp add: ex_w3_def)

lemma ex_plain_build:
  "nix_build ex_cfg (ex_sys ex_staged 0 False) (ex_w3 ex_cfg (ex_sys ex_staged 0 False)) (build_attr ex_cfg ''/tmp/makes-0'' ''/foo'')
     (Some ex_cache) ''/tmp/makes-0'' ''/tmp/out/result-foo''
     = (Inr (ex_bargs ex_cfg (ex_sys ex_staged 0 False)), snd (ex_build ex_cfg (ex_sys ex_staged 0 False)))"
  by (rule pairI, code_simp) (simp add: ex_build_def)

lemma ex_plain_run:
  "run (ex_sys ex_staged 0 False) (snd (ex_build ex_cfg (ex_sys ex_staged 0 False))) (ex_bargs ex_cfg (ex_sys ex_staged 0 False)) None False
     = (Inr (0, [], []), ex_w5 ex_cfg (ex_sys ex_staged 0 False))"
  by (rule pairI, code_simp) (simp add: ex_w5_def)

lemma ex_plain_push:
  "cache_push ex_cfg (ex_sys ex_staged 0 False) (ex_w5 ex_cfg (ex_sys ex_staged 0 False)) ex_cache ''/tmp/out/result-foo''
     = (Inr (), ex_w6 ex_cfg (ex_sys ex_staged 0 False))"
  by (rule pairI, code_simp) (simp add: ex_w6_def)

lemma ex_pushing_head:
  "get_head ex_cfg_token (ex_sys ex_staged 0 True) (cli_banner ex_cfg_token (startup ex_cfg_token ex_world)) ''.''
     = (Inr ''/tmp/makes-0'', ex_w1 ex_cfg_token (ex_sys ex_staged 0 True))"
  by (rule pairI, code_simp) (simp add: ex_w1_def ex_w0_def)

lemma ex_pushing_attrs:
  "get_attrs ex_cfg_token (ex_sys ex_staged 0 True) (ex_w1 ex_cfg_token (ex_sys ex_staged 0 True)) ''.'' ''/tmp/makes-0''
     = (Inr [''__all__'', ''/foo'', ''/bar''], ex_w2 ex_cfg_token (ex_sys ex_staged 0 True))"
  by (rule pairI, code_simp) (simp add: ex_w2_def)

lemma ex_pushing_cache:
  "get_cache ex_cfg_token (ex_sys ex_staged 0 True) (ex_w2 ex_cfg_token (ex_sys ex_staged 0 True)) ''.'' ''/tmp/makes-0''
     = (Inr ex_cache, ex_w3 ex_cfg_token (ex_sys ex_staged 0 True))"
  by (rule pairI, code_simp) (simp add: ex_w3_def)

lemma ex_pushing_build:
  "nix_build ex_cfg_token (ex_sys ex_staged 0 True) (ex_w3 ex_cfg_token (ex_sys ex_staged 0 True)) (build_attr ex_cfg_token ''/tmp/makes-0'' ''/foo'')
     (Some ex_cache) ''/tmp/makes-0'' ''/tmp/out/result-foo''
     = (Inr (ex_bargs ex_cfg_token (ex_sys ex_staged 0 True)), snd (ex_build ex_cfg_token (ex_sys ex_staged 0 True)))"
  by (rule pairI, code_simp) (simp add: ex_build_def)

lemma ex_pushing_run:
  "run (ex_sys ex_staged 0 True) (snd (ex_build ex_cfg_token (ex_sys ex_staged 0 True))) (ex_bargs ex_cfg_token (ex_sys ex_staged 0 True)) None False
     = (Inr (0, [], []), ex_w5 ex_cfg_token (ex_sys ex_staged 0 True))"
  by (rule pairI, code_simp) (simp add: ex_w5_def)

lemma ex_pushing_push:
  "cache_push ex_cfg_token (ex_sys ex_staged 0 True) (ex_w5 ex_cfg_token (ex_sys ex_staged 0 True)) ex_cache ''/tmp/out/result-foo''
     = (Inr (), ex_w6 ex_cfg_token (ex_sys ex_staged 0 True))"
  by (rule pairI, code_simp) (simp add: ex_w6_def)

lemma ex_out:
  "''/tmp/out/result-foo'' = join (OUT_BASE ex_cfg) (''result'' @ replace_slash_dash ''/foo'')"
  "''/tmp/out/result-foo'' = join (OUT_BASE ex_cfg_token) (''result'' @ replace_slash_dash ''/foo'')"
  by code_simp+


lemma ex_gone_local: "is_src_local ex_cfg ''.''"
  by code_simp

lemma ex_gone_clone:
  "clone_src ex_cfg ex_gone (cli_banner ex_cfg (startup ex_cfg ex_world)) ''.''
     = (Inr ''/tmp/makes-0'', ex_v1)"
  by (rule pairI, code_simp) (simp add: ex_v1_def ex_w0_def)

lemma ex_gone_staged:
  "run ex_gone ex_v1 [''git'', ''-C'', ''.'', ''diff'', ''--cached'', ''--name-only''] None True
     = (Inr (0, ''n'' @ [CHR 0x0A], []), ex_v2)"
  by (rule pairI, code_simp) (simp add: ex_v2_def)

lemma ex_gone_modified:
  "run ex_gone ex_v2 [''git'', ''-C'', ''.'', ''ls-files'', ''--modified''] None True
     = (Inr (0, [], []), ex_v3)"
  by (rule pairI, code_simp) (simp add: ex_v3_def)

lemma ex_gone_paths:
  "sort (remdups (splitlines (''n'' @ [CHR 0x0A]) @ splitlines [])) = [] @ ''n'' # []"
  by code_simp

lemma ex_gone_absent:
  "\<not> exists_path (CWD ex_cfg) (fs ex_v3) (join ''.'' ''n'')"
  "\<not> exists_path (CWD ex_cfg) (fs ex_v3) (join ''/tmp/makes-0'' ''n'')"
  by code_simp+

section \<open>The properties of the specification\<close>

subsection \<open>C1: the checkout of a local reference\<close>

text \<open>
  C1 says that the checkout \<^verbatim>\<open>_get_head\<close> returns for a local reference holds the
  committed tree with every staged or modified path overlaid from the working
  directory. The run below shows a checkout for which this fails. The commit holds a
  directory \<open>a\<close> with the file \<open>a/x\<close>; in the working directory \<open>a\<close> is now a
  regular file, and the change is staged, so \<open>git\<close> lists \<open>a\<close> and \<open>a/x\<close>.
  \<^verbatim>\<open>shutil.copy\<close> finds the destination \<open>a\<close> to be a directory and copies the
  file into it: \<^verbatim>\<open>_get_head\<close> returns a checkout in which \<open>a\<close> is still a directory
  and the working file sits at \<open>a/a\<close>. (Where no destination is a directory the
  overlay is as C1 says, \<open>get_head_overlay\<close>; the checkout never has a \<open>.git\<close>,
  \<open>get_head_no_git\<close>, nor a file from elsewhere, \<open>get_head_files_origin\<close>.)
\<close>

theorem get_head_directory_replaced_by_file:
  "fs ex_world ''/w/a'' = Some (File ''new'')
   \<and> fst (get_head ex_cfg ex_typechange (ex_w0 ex_cfg) ''.'') = Inr ''/tmp/makes-0''
   \<and> fs (snd (get_head ex_cfg ex_typechange (ex_w0 ex_cfg) ''.'')) ''/tmp/makes-0/a'' = Some Dir
   \<and> fs (snd (get_head ex_cfg ex_typechange (ex_w0 ex_cfg) ''.'')) ''/tmp/makes-0/a/a''
       = Some (File ''new'')
   \<and> fs (snd (get_head ex_cfg ex_typechange (ex_w0 ex_cfg) ''.'')) ''/tmp/makes-0/a/x'' = None
   \<and> fs (snd (get_head ex_cfg ex_typechange (ex_w0 ex_cfg) ''.'')) ''/tmp/makes-0/.git'' = None"
  by code_simp

subsection \<open>C2: a failed build\<close>

text \<open>
  C2: when the build of the requested output exits with a code \<open>n\<close> that is not 0, the
  process exits with \<open>n\<close>, and the build is the last child process: no cache push and
  no action script follow it, and nothing more is printed. The hypotheses name the
  steps \<^verbatim>\<open>cli\<close> takes up to the build: the checkout, the list of outputs with the
  requested one in it, the cache configuration and the argument list of the build.
\<close>

theorem build_failure_exit_code:
  assumes "get_head cfg sys (cli_banner cfg (startup cfg w)) src = (Inr head, w1)"
    and "get_attrs cfg sys w1 src head = (Inr attrs, w2)"
    and "attr \<in> set attrs"
    and "get_cache cfg sys w2 src head = (Inr cache, w3)"
    and "nix_build cfg sys w3 (build_attr cfg head attr) (Some cache) head
           (join (OUT_BASE cfg) (''result'' @ replace_slash_dash attr)) = (Inr bargs, w4)"
    and "run sys w4 bargs None False = (Inr (n, so, se), w5)"
    and "n \<noteq> 0"
  shows "fst (program cfg sys w (m # src # attr # rest)) = Exited n
    \<and> exit_code (fst (program cfg sys w (m # src # attr # rest))) = n
    \<and> spawned (snd (program cfg sys w (m # src # attr # rest))) = spawned w4 @ [\<lparr>args = bargs, cwd = None, capture_io = False\<rparr>]
    \<and> stderr (snd (program cfg sys w (m # src # attr # rest))) = stderr w4"
proof -
  have "cli cfg sys (startup cfg w) (m # src # attr # rest) = (SystemExit n, w5)"
    using assms by (simp add: cli_def Let_def)
  then have "program cfg sys w (m # src # attr # rest) = (Exited n, cleanup cfg w5)"
    by (rule program_SystemExit)
  moreover have "spawned w5 = spawned w4 @ [\<lparr>args = bargs, cwd = None, capture_io = False\<rparr>]"
    and "stderr w5 = stderr w4"
    using assms(6) by (auto simp: run_def Let_def split: sum.splits prod.splits)
  ultimately show ?thesis by (simp add: cleanup_frame exit_code_def)
qed

theorem build_failure_exit_code_witness:
  "exit_code (fst (program ex_cfg (ex_sys ex_staged 7 True) ex_world
      [''m'', ''.'', ''/foo'', ''--x''])) = 7"
proof -
  have listed: "''/foo'' \<in> set [''__all__'', ''/foo'', ''/bar'']" by simp
  have failed: "(7::int) \<noteq> 0" by simp
  show ?thesis
    using build_failure_exit_code [OF ex_failing_head ex_failing_attrs listed ex_failing_cache
        ex_failing_build [unfolded ex_out(1)] ex_failing_run failed, of "''m''" "[''--x'']"]
    by blast
qed

subsection \<open>C3: the action script\<close>

text \<open>
  C3 says that after every build that exits with 0 and leaves an action script, the
  script is called and its exit code is the exit code of the process. Two runs show
  otherwise. In the first the cache configuration has an entry without \<open>type\<close>: the
  build exits with 0 and leaves the script, \<^verbatim>\<open>cache_push\<close> raises \<open>KeyError\<close>, and
  the process ends with a traceback without another call after the build. In the second
  the script is there and cannot be started: \<^verbatim>\<open>Popen\<close> raises, and the process ends
  with a traceback, not with an exit code of the script.
\<close>

theorem action_script_not_run:
  "fst (get_cache ex_cfg ex_sys_untyped (ex_w2 ex_cfg ex_sys_untyped) ''.'' ''/tmp/makes-0'')
     = Inr ex_cache_untyped
   \<and> fst (ex_built ex_cfg ex_sys_untyped ex_cache_untyped) = Inr (0, [], [])
   \<and> exists_path (CWD ex_cfg) (fs (snd (ex_built ex_cfg ex_sys_untyped ex_cache_untyped)))
        ''/tmp/out/result-foo/makes-action.sh''
   \<and> fst (program ex_cfg ex_sys_untyped ex_world [''m'', ''.'', ''/foo'', ''--x''])
       = Traceback (KeyError ''type'')
   \<and> spawned (snd (program ex_cfg ex_sys_untyped ex_world [''m'', ''.'', ''/foo'', ''--x'']))
       = spawned (snd (ex_built ex_cfg ex_sys_untyped ex_cache_untyped))
   \<and> fst (ex_built ex_cfg ex_sys_locked ex_cache) = Inr (0, [], [])
   \<and> exists_path (CWD ex_cfg) (fs (snd (ex_built ex_cfg ex_sys_locked ex_cache)))
        ''/tmp/out/result-foo/makes-action.sh''
   \<and> fst (program ex_cfg ex_sys_locked ex_world [''m'', ''.'', ''/foo'', ''--x''])
       = Traceback (OSError PermissionError ''/tmp/out/result-foo/makes-action.sh'')
   \<and> exit_code (fst (program ex_cfg ex_sys_locked ex_world [''m'', ''.'', ''/foo'', ''--x''])) = 1"
  by code_simp

text \<open>
  C3 as amended. After a build that exits with 0, \<^verbatim>\<open>cache_push\<close> runs and leaves
  the world \<open>w6\<close>. When it raises, its exception ends the process with a traceback and
  nothing more is called. When it returns and there is an action script
  \<open>makes-action.sh\<close> in the output, the script is called with the output path as its
  first argument and the forwarded arguments after it, in the orchestrator's working
  directory, and that is the last call: a script that ran gives the process its exit
  code, and one that could not be started ends the process with the traceback of the
  \<open>OSError\<close> of \<^verbatim>\<open>Popen\<close>. When it returns and there is no action script, the
  process exits with 0 and calls nothing more. The exit status of a traceback is 1.
\<close>

theorem action_exit_code:
  assumes "get_head cfg sys (cli_banner cfg (startup cfg w)) src = (Inr head, w1)"
    and "get_attrs cfg sys w1 src head = (Inr attrs, w2)"
    and "attr \<in> set attrs"
    and "get_cache cfg sys w2 src head = (Inr cache, w3)"
    and "out = join (OUT_BASE cfg) (''result'' @ replace_slash_dash attr)"
    and "nix_build cfg sys w3 (build_attr cfg head attr) (Some cache) head out = (Inr bargs, w4)"
    and "run sys w4 bargs None False = (Inr (0, so, se), w5)"
    and "cache_push cfg sys w5 cache out = (r, w6)"
    and "action = \<lparr>args = join out ''makes-action.sh'' # out # rest, cwd = Some (CWD cfg), capture_io = False\<rparr>"
  shows "fst (program cfg sys w (m # src # attr # rest)) =
           (case r of
              Inl e \<Rightarrow> Traceback e
            | Inr u \<Rightarrow>
                if exists_path (CWD cfg) (fs w6) (join out ''makes-action.sh'')
                then (case proc sys (spawned w6) (fs w6) action of
                        Inl k \<Rightarrow> Traceback (OSError k (join out ''makes-action.sh''))
                      | Inr ((code, so', se'), f) \<Rightarrow> Exited code)
                else Exited 0)
       \<and> exit_code (fst (program cfg sys w (m # src # attr # rest))) =
           (case r of
              Inl e \<Rightarrow> 1
            | Inr u \<Rightarrow>
                if exists_path (CWD cfg) (fs w6) (join out ''makes-action.sh'')
                then (case proc sys (spawned w6) (fs w6) action of
                        Inl k \<Rightarrow> 1
                      | Inr ((code, so', se'), f) \<Rightarrow> code)
                else 0)
       \<and> spawned (snd (program cfg sys w (m # src # attr # rest))) =
           (case r of
              Inl e \<Rightarrow> spawned w6
            | Inr u \<Rightarrow>
                if exists_path (CWD cfg) (fs w6) (join out ''makes-action.sh'')
                then spawned w6 @ [action] else spawned w6)"
  using program_build_succeeded [OF assms, of m]
  by (auto simp: exit_code_def cleanup_frame split: sum.splits prod.splits)

theorem action_exit_code_witness:
  "exit_code (fst (program ex_cfg (ex_sys ex_staged 0 True) ex_world
      [''m'', ''.'', ''/foo'', ''--x''])) = 3
   \<and> args (last (spawned (snd (program ex_cfg (ex_sys ex_staged 0 True) ex_world
        [''m'', ''.'', ''/foo'', ''--x''])))) =
        [''/tmp/out/result-foo/makes-action.sh'', ''/tmp/out/result-foo'', ''--x'']
   \<and> exit_code (fst (program ex_cfg (ex_sys ex_staged 0 False) ex_world
        [''m'', ''.'', ''/foo'', ''--x''])) = 0"
proof -
  have listed: "''/foo'' \<in> set [''__all__'', ''/foo'', ''/bar'']" by simp
  have script: "exists_path (CWD ex_cfg) (fs (ex_w6 ex_cfg (ex_sys ex_staged 0 True)))
      (join ''/tmp/out/result-foo'' ''makes-action.sh'')"
    by code_simp
  have no_script: "\<not> exists_path (CWD ex_cfg) (fs (ex_w6 ex_cfg (ex_sys ex_staged 0 False)))
      (join ''/tmp/out/result-foo'' ''makes-action.sh'')"
    by code_simp
  have "map_sum id fst (proc (ex_sys ex_staged 0 True)
      (spawned (ex_w6 ex_cfg (ex_sys ex_staged 0 True)))
      (fs (ex_w6 ex_cfg (ex_sys ex_staged 0 True)))
      \<lparr>args = join ''/tmp/out/result-foo'' ''makes-action.sh'' # ''/tmp/out/result-foo'' # [''--x''],
        cwd = Some (CWD ex_cfg), capture_io = False\<rparr>) = Inr (3, [], [])"
    by code_simp
  then obtain f where code: "proc (ex_sys ex_staged 0 True)
      (spawned (ex_w6 ex_cfg (ex_sys ex_staged 0 True)))
      (fs (ex_w6 ex_cfg (ex_sys ex_staged 0 True)))
      \<lparr>args = join ''/tmp/out/result-foo'' ''makes-action.sh'' # ''/tmp/out/result-foo'' # [''--x''],
        cwd = Some (CWD ex_cfg), capture_io = False\<rparr> = Inr ((3, [], []), f)"
    by (auto simp: map_sum_def split: sum.splits)
  have path: "join ''/tmp/out/result-foo'' ''makes-action.sh'' = ''/tmp/out/result-foo/makes-action.sh''"
    by code_simp
  note with_script = action_exit_code [where rest = "[''--x'']" and m = "''m''",
      OF ex_acting_head ex_acting_attrs listed ex_acting_cache
      ex_out(1) ex_acting_build ex_acting_run ex_acting_push refl]
  note without_script = action_exit_code [where rest = "[''--x'']" and m = "''m''",
      OF ex_plain_head ex_plain_attrs listed ex_plain_cache
      ex_out(1) ex_plain_build ex_plain_run ex_plain_push refl]
  show ?thesis
    using with_script without_script script no_script code path by (simp add: exit_code_def)
qed

subsection \<open>C4: the clone cache lookup\<close>

text \<open>
  C4: with an empty cache key the lookup returns the remote and changes nothing. With
  a key that is not empty it returns the cached directory's path when the entry exists
  and is at most 86400 seconds old; an entry (a directory) older than that is removed
  with everything below it and the remote is returned; with no entry the remote is
  returned. So, for a remote that is not itself the cache path, the result is the cache
  path exactly when an entry of age at most 86400 seconds exists. Times are real
  numbers of seconds.
\<close>

theorem clone_src_cache_get_cases:
  fixes cfg w src cache_key remote
  defines "cached \<equiv> join (SOURCES_CACHE cfg) cache_key"
  defines "age \<equiv> now w - ctime w (abspath (CWD cfg) cached)"
  defines "r \<equiv> clone_src_cache_get cfg w src cache_key remote"
  shows "(cache_key = [] \<longrightarrow> r = (Inr remote, w))
    \<and> (cache_key \<noteq> [] \<and> exists_path (CWD cfg) (fs w) cached \<and> age \<le> 86400
         \<longrightarrow> fst r = Inr cached \<and> fs (snd r) = fs w)
    \<and> (cache_key \<noteq> [] \<and> isdir (CWD cfg) (fs w) cached \<and> age > 86400
         \<longrightarrow> fst r = Inr remote \<and> \<not> exists_path (CWD cfg) (fs (snd r)) cached
             \<and> (\<forall>x. under (abspath (CWD cfg) cached) x \<longrightarrow> fs (snd r) x = None))
    \<and> (cache_key \<noteq> [] \<and> \<not> exists_path (CWD cfg) (fs w) cached
         \<longrightarrow> fst r = Inr remote \<and> fs (snd r) = fs w)
    \<and> (cache_key \<noteq> [] \<and> remote \<noteq> cached
         \<longrightarrow> (fst r = Inr cached \<longleftrightarrow> exists_path (CWD cfg) (fs w) cached \<and> age \<le> 86400))"
  unfolding r_def age_def cached_def
  by (auto simp: clone_src_cache_get_def Let_def log_def exists_path_def isdir_def rmtree_def
      split: option.splits node.splits sum.splits)

theorem clone_src_cache_get_cases_witness:
  "fst (clone_src_cache_get ex_cfg (ex_cached_world 86400) ''github:o/r@main''
          ''github-o-r-main'' ''https://github.com/o/r'')
     = Inr ''/home/.cache/makes/sources/github-o-r-main''
   \<and> fst (clone_src_cache_get ex_cfg (ex_cached_world 86401) ''github:o/r@main''
          ''github-o-r-main'' ''https://github.com/o/r'')
     = Inr ''https://github.com/o/r''
   \<and> \<not> exists_path (CWD ex_cfg)
         (fs (snd (clone_src_cache_get ex_cfg (ex_cached_world 86401) ''github:o/r@main''
                ''github-o-r-main'' ''https://github.com/o/r'')))
         ''/home/.cache/makes/sources/github-o-r-main''"
proof -
  have key: "''github-o-r-main'' \<noteq> []" by simp
  have cached: "join (SOURCES_CACHE ex_cfg) ''github-o-r-main''
      = ''/home/.cache/makes/sources/github-o-r-main''"
    by code_simp
  have resolved: "abspath (CWD ex_cfg) ''/home/.cache/makes/sources/github-o-r-main''
      = ''/home/.cache/makes/sources/github-o-r-main''"
    by code_simp
  have entry: "isdir (CWD ex_cfg) (fs (ex_cached_world t)) ''/home/.cache/makes/sources/github-o-r-main''"
    "exists_path (CWD ex_cfg) (fs (ex_cached_world t)) ''/home/.cache/makes/sources/github-o-r-main''"
    for t
    by (simp_all add: isdir_def exists_path_def resolved ex_cached_world_def)
  have age: "now (ex_cached_world t) - ctime (ex_cached_world t) x = t" for t x
    by (simp add: ex_cached_world_def ex_world_def)
  show ?thesis
    using clone_src_cache_get_cases [of "''github-o-r-main''" ex_cfg "ex_cached_world 86400"
        "''github:o/r@main''" "''https://github.com/o/r''"]
      clone_src_cache_get_cases [of "''github-o-r-main''" ex_cfg "ex_cached_world 86401"
        "''github:o/r@main''" "''https://github.com/o/r''"]
    by (simp add: cached entry age)
qed

subsection \<open>C5: an unknown output\<close>

text \<open>
  C5 says that the help printed for an unknown output lists every name of the manifest.
  \<^verbatim>\<open>_help_and_exit\<close> leaves out the two names of \<open>hidden_attrs\<close>: in the run below the
  manifest holds \<open>__all__\<close>, the requested \<open>/baz\<close> is not in it, and no line for
  \<open>__all__\<close> is printed.
\<close>

theorem help_omits_hidden_names:
  "fst (get_attrs ex_cfg (ex_sys ex_staged 0 True) (ex_w1 ex_cfg (ex_sys ex_staged 0 True)) ''.''
          ''/tmp/makes-0'') = Inr [''__all__'', ''/foo'', ''/bar'']
   \<and> ''/baz'' \<notin> set [''__all__'', ''/foo'', ''/bar'']
   \<and> ''  __all__'' \<notin> set (stderr (snd (program ex_cfg (ex_sys ex_staged 0 True) ex_world
          [''m'', ''.'', ''/baz''])))
   \<and> ''  /foo'' \<in> set (stderr (snd (program ex_cfg (ex_sys ex_staged 0 True) ex_world
          [''m'', ''.'', ''/baz''])))"
  by code_simp

text \<open>
  C5 as amended: when the requested output is not in the enumerated list, the process
  exits with 1, starts no further child process, and the help ends with the line
  \<open>[OUTPUT] can be:\<close>, then one line for every enumerated name that is not in
  \<open>hidden_attrs\<close>, in the order of the manifest, then the two closing lines.
\<close>

theorem unknown_output_help:
  assumes "get_head cfg sys (cli_banner cfg (startup cfg w)) src = (Inr head, w1)"
    and "get_attrs cfg sys w1 src head = (Inr attrs, w2)"
    and "attr \<notin> set attrs"
  shows "exit_code (fst (program cfg sys w (m # src # attr # rest))) = 1
    \<and> (\<exists>before. stderr (snd (program cfg sys w (m # src # attr # rest))) =
          before @ [''[OUTPUT] can be:'']
            @ map (\<lambda>a. ''  '' @ a) (filter (\<lambda>a. a \<notin> set hidden_attrs) attrs)
            @ [[], ''[ARGS] are passed to the output (if supported).''])
    \<and> spawned (snd (program cfg sys w (m # src # attr # rest))) = spawned w2"
proof -
  have c: "cli cfg sys (startup cfg w) (m # src # attr # rest)
      = help_and_exit w2 (Some src) (Some attrs) None"
    using assms by (simp add: cli_def Let_def)
  obtain before w' where h: "help_and_exit w2 (Some src) (Some attrs) None = (SystemExit 1, w')"
    and s: "stderr w' = before @ [''[OUTPUT] can be:'']
            @ map (\<lambda>a. ''  '' @ a) (filter (\<lambda>a. a \<notin> set hidden_attrs) attrs)
            @ [[], ''[ARGS] are passed to the output (if supported).'']"
    and sp: "spawned w' = spawned w2"
    using help_and_exit_listing [of w2 src attrs] by blast
  from c h have "program cfg sys w (m # src # attr # rest) = (Exited 1, cleanup cfg w')"
    by (simp add: program_SystemExit)
  then show ?thesis using s sp by (simp add: exit_code_def cleanup_frame)
qed

theorem unknown_output_help_witness:
  "exit_code (fst (program ex_cfg (ex_sys ex_staged 0 True) ex_world [''m'', ''.'', ''/baz''])) = 1"
proof -
  have unknown: "''/baz'' \<notin> set [''__all__'', ''/foo'', ''/bar'']" by simp
  show ?thesis
    using unknown_output_help [OF ex_acting_head ex_acting_attrs unknown, of "''m''" "[]"]
    by blast
qed

subsection \<open>C6: the build invocation builder\<close>

text \<open>
  C6 says that two invocations of \<^verbatim>\<open>_nix_build\<close> with the same arguments and flags
  return the same list. In stable mode the list holds \<^verbatim>\<open>uuid().hex\<close>, drawn anew by
  every invocation: two invocations in a row differ.
\<close>

theorem nix_build_not_pure:
  "fst (nix_build ex_cfg (ex_sys ex_staged 0 False) ex_world ''config.attrs'' None ''/tmp/makes-0'' ''/tmp/tmp0'')
   \<noteq> fst (nix_build ex_cfg (ex_sys ex_staged 0 False)
          (snd (nix_build ex_cfg (ex_sys ex_staged 0 False) ex_world ''config.attrs'' None ''/tmp/makes-0'' ''/tmp/tmp0''))
          ''config.attrs'' None ''/tmp/makes-0'' ''/tmp/tmp0'')"
  by code_simp

text \<open>
  C6 as amended: what the builder returns is determined by the arguments, the flags
  and, in stable mode only, the execution identifier that the invocation draws. Take two
  invocations with the same arguments and flags, in any two states. In unstable mode
  they return the same; when the builder raises (the \<open>KeyError\<close> of a cache entry
  without \<open>url\<close> or \<open>pubKey\<close>), both raise the same; and in stable mode, when a list
  is returned, the two lists are the same exactly when the two invocations draw the same
  identifier. (\<^const>\<open>isl\<close> holds for a raised exception.)
\<close>

theorem nix_build_determined:
  "fst (nix_build cfg sys w attr cache head out) = fst (nix_build cfg sys' w' attr cache head out)
   \<longleftrightarrow> (NIX_STABLE cfg \<and> \<not> isl (fst (nix_build cfg sys w attr cache head out))
          \<longrightarrow> uuid4_hex sys (uuid_count w) = uuid4_hex sys' (uuid_count w'))"
  by (auto simp: nix_build_def if_list_def split: option.splits sum.splits prod.splits)

theorem nix_build_determined_witness:
  "fst (nix_build ex_cfg_unstable (ex_sys ex_staged 0 False) ex_world ''x'' None ''/tmp/makes-0'' ''/tmp/tmp0'')
   = fst (nix_build ex_cfg_unstable (ex_sys ex_staged 0 False)
          (snd (nix_build ex_cfg_unstable (ex_sys ex_staged 0 False) ex_world ''x'' None ''/tmp/makes-0'' ''/tmp/tmp0''))
          ''x'' None ''/tmp/makes-0'' ''/tmp/tmp0'')
   \<and> fst (nix_build ex_cfg (ex_sys ex_staged 0 False) ex_world ''x'' None ''/tmp/makes-0'' ''/tmp/tmp0'')
     = fst (nix_build ex_cfg (ex_sys ex_staged 7 True) (log ex_world ''later'') ''x'' None
              ''/tmp/makes-0'' ''/tmp/tmp0'')"
proof -
  have unstable: "\<not> NIX_STABLE ex_cfg_unstable" by code_simp
  have drawn: "uuid4_hex (ex_sys ex_staged 0 False) (uuid_count ex_world)
      = uuid4_hex (ex_sys ex_staged 7 True) (uuid_count (log ex_world ''later''))"
    by code_simp
  show ?thesis
    using unstable drawn
      nix_build_determined [of ex_cfg_unstable "ex_sys ex_staged 0 False" ex_world "''x''" None
        "''/tmp/makes-0''" "''/tmp/tmp0''" "ex_sys ex_staged 0 False"
        "snd (nix_build ex_cfg_unstable (ex_sys ex_staged 0 False) ex_world ''x'' None ''/tmp/makes-0'' ''/tmp/tmp0'')"]
      nix_build_determined [of ex_cfg "ex_sys ex_staged 0 False" ex_world "''x''" None
        "''/tmp/makes-0''" "''/tmp/tmp0''" "ex_sys ex_staged 7 True" "log ex_world ''later''"]
    by blast
qed

subsection \<open>C7: cache keys\<close>

text \<open>
  C7 says that two different pairs of owner and repository never give the same cache
  key. The key joins the percent-encoded parts with \<open>-\<close>, which percent-encoding keeps:
  owner \<open>a-b\<close> with repository \<open>c\<close>, and owner \<open>a\<close> with repository \<open>b-c\<close>, are
  different remotes with one cache key. (The remote URLs do not collide:
  \<open>github_remote_injective\<close>, \<open>gitlab_remote_injective\<close>.)
\<close>

theorem cache_key_collision:
  "clone_src_github ''github:a-b/c@v''
     = Some (''github-a-b-c-v'', ''https://github.com/a-b/c'', ''v'')
   \<and> clone_src_github ''github:a/b-c@v''
     = Some (''github-a-b-c-v'', ''https://github.com/a/b-c'', ''v'')
   \<and> clone_src_gitlab ''gitlab:a-b/c@v''
     = Some (''gitlab-a-b-c-v'', ''https://gitlab.com/a-b/c.git'', ''v'')
   \<and> clone_src_gitlab ''gitlab:a/b-c@v''
     = Some (''gitlab-a-b-c-v'', ''https://gitlab.com/a/b-c.git'', ''v'')"
  by code_simp

subsection \<open>C8: the cache push\<close>

text \<open>
  C8 says that after a successful build a push is attempted exactly when the
  configuration has an entry of type \<open>cachix\<close> and the credential is in the
  environment, that it is skipped silently otherwise, and that the exit code of the
  process is not affected either way. Three runs after a build that exits with 0 and leaves
  an action script (which exits with 3) show otherwise. With the credential and a
  \<open>cachix\<close> entry without \<open>name\<close>, the line \<open>Pushing to cache\<close> is printed, no push is
  called, and the process ends with the traceback of a \<open>KeyError\<close>. Without the
  credential and with an entry without \<open>type\<close>, the process ends with the traceback of
  a \<open>KeyError\<close> as well. With the credential, a full entry and no \<open>cachix\<close> client to
  start, the process ends with the traceback of the \<open>OSError\<close> of \<^verbatim>\<open>Popen\<close>, where
  the same run without the credential exits with 3.
\<close>

theorem cache_push_raises_uncaught:
  "fst (ex_built ex_cfg_token ex_sys_unnamed ex_cache_unnamed) = Inr (0, [], [])
   \<and> fst (program ex_cfg_token ex_sys_unnamed ex_world [''m'', ''.'', ''/foo'', ''--x''])
       = Traceback (KeyError ''name'')
   \<and> exit_code (fst (program ex_cfg_token ex_sys_unnamed ex_world [''m'', ''.'', ''/foo'', ''--x''])) = 1
   \<and> stderr (snd (program ex_cfg_token ex_sys_unnamed ex_world [''m'', ''.'', ''/foo'', ''--x'']))
       = stderr (snd (ex_built ex_cfg_token ex_sys_unnamed ex_cache_unnamed)) @ [''Pushing to cache'']
   \<and> spawned (snd (program ex_cfg_token ex_sys_unnamed ex_world [''m'', ''.'', ''/foo'', ''--x'']))
       = spawned (snd (ex_built ex_cfg_token ex_sys_unnamed ex_cache_unnamed))
   \<and> environ ex_cfg ''CACHIX_AUTH_TOKEN'' = None
   \<and> fst (ex_built ex_cfg ex_sys_untyped ex_cache_untyped) = Inr (0, [], [])
   \<and> exit_code (fst (program ex_cfg ex_sys_untyped ex_world [''m'', ''.'', ''/foo'', ''--x''])) = 1
   \<and> fst (ex_built ex_cfg_token ex_sys_no_cachix ex_cache) = Inr (0, [], [])
   \<and> fst (program ex_cfg_token ex_sys_no_cachix ex_world [''m'', ''.'', ''/foo'', ''--x''])
       = Traceback (OSError FileNotFoundError ''cachix'')
   \<and> exit_code (fst (program ex_cfg_token ex_sys_no_cachix ex_world [''m'', ''.'', ''/foo'', ''--x''])) = 1
   \<and> exit_code (fst (program ex_cfg ex_sys_no_cachix ex_world [''m'', ''.'', ''/foo'', ''--x''])) = 3"
  by code_simp

text \<open>
  C8 as amended. Take a build that exits with 0, and a cache configuration in which
  every entry has a \<open>type\<close> and every entry of type \<open>cachix\<close> a \<open>name\<close>;
  \<^verbatim>\<open>cache_push\<close> ends with \<open>r\<close> and leaves the world \<open>w6\<close>. When the credential is
  in the environment and some entry has type \<open>cachix\<close>, the line \<open>Pushing to cache\<close>
  is printed and exactly one call follows, \<open>cachix push\<close> for such an entry;
  \<^verbatim>\<open>cache_push\<close> returns when that client could be started, whatever its exit code,
  and raises the \<open>OSError\<close> of \<^verbatim>\<open>Popen\<close> when it could not. Otherwise
  \<^verbatim>\<open>cache_push\<close> returns and leaves the world as it was. The process then ends as
  follows: with the traceback of what \<^verbatim>\<open>cache_push\<close> raised; else with the exit code
  of the action script (or the traceback of the \<open>OSError\<close> when it cannot be started);
  else, without an action script, with 0. The exit code of the push is in none of them.
\<close>

theorem cache_push_when_configured:
  assumes "get_head cfg sys (cli_banner cfg (startup cfg w)) src = (Inr head, w1)"
    and "get_attrs cfg sys w1 src head = (Inr attrs, w2)"
    and "attr \<in> set attrs"
    and "get_cache cfg sys w2 src head = (Inr cache, w3)"
    and "out = join (OUT_BASE cfg) (''result'' @ replace_slash_dash attr)"
    and "nix_build cfg sys w3 (build_attr cfg head attr) (Some cache) head out = (Inr bargs, w4)"
    and "run sys w4 bargs None False = (Inr (0, so, se), w5)"
    and "\<forall>c\<in>set cache. map_of c ''type'' \<noteq> None
           \<and> (map_of c ''type'' = Some ''cachix'' \<longrightarrow> map_of c ''name'' \<noteq> None)"
    and "cache_push cfg sys w5 cache out = (r, w6)"
    and "action = \<lparr>args = join out ''makes-action.sh'' # out # rest, cwd = Some (CWD cfg), capture_io = False\<rparr>"
  shows "(if environ cfg ''CACHIX_AUTH_TOKEN'' \<noteq> None \<and> (\<exists>c\<in>set cache. map_of c ''type'' = Some ''cachix'')
          then \<exists>c\<in>set cache. \<exists>name. map_of c ''type'' = Some ''cachix'' \<and> map_of c ''name'' = Some name
                 \<and> spawned w6 = spawned w5 @ [\<lparr>args = [''cachix'', ''push'', ''-c'', ''0'', name, out],
                                                 cwd = None, capture_io = False\<rparr>]
                 \<and> stderr w6 = stderr w5 @ [''Pushing to cache'']
                 \<and> r = (case proc sys (spawned w5) (fs w5)
                               \<lparr>args = [''cachix'', ''push'', ''-c'', ''0'', name, out],
                                cwd = None, capture_io = False\<rparr> of
                          Inl k \<Rightarrow> Inl (OSError k ''cachix'')
                        | Inr x \<Rightarrow> Inr ())
          else r = Inr () \<and> w6 = w5)
       \<and> fst (program cfg sys w (m # src # attr # rest)) =
           (case r of
              Inl e \<Rightarrow> Traceback e
            | Inr u \<Rightarrow>
                if exists_path (CWD cfg) (fs w6) (join out ''makes-action.sh'')
                then (case proc sys (spawned w6) (fs w6) action of
                        Inl k \<Rightarrow> Traceback (OSError k (join out ''makes-action.sh''))
                      | Inr ((code, so', se'), f) \<Rightarrow> Exited code)
                else Exited 0)"
proof -
  note e = cache_push_effect [OF assms(8), of cfg sys w5 out]
  have pushed: "if environ cfg ''CACHIX_AUTH_TOKEN'' \<noteq> None \<and> (\<exists>c\<in>set cache. map_of c ''type'' = Some ''cachix'')
          then \<exists>c\<in>set cache. \<exists>name. map_of c ''type'' = Some ''cachix'' \<and> map_of c ''name'' = Some name
                 \<and> spawned w6 = spawned w5 @ [\<lparr>args = [''cachix'', ''push'', ''-c'', ''0'', name, out],
                                                 cwd = None, capture_io = False\<rparr>]
                 \<and> stderr w6 = stderr w5 @ [''Pushing to cache'']
                 \<and> r = (case proc sys (spawned w5) (fs w5)
                               \<lparr>args = [''cachix'', ''push'', ''-c'', ''0'', name, out],
                                cwd = None, capture_io = False\<rparr> of
                          Inl k \<Rightarrow> Inl (OSError k ''cachix'')
                        | Inr x \<Rightarrow> Inr ())
          else r = Inr () \<and> w6 = w5"
    using e unfolding assms(9) fst_conv snd_conv prod.inject by simp
  have ended: "fst (program cfg sys w (m # src # attr # rest)) =
           (case r of
              Inl e \<Rightarrow> Traceback e
            | Inr u \<Rightarrow>
                if exists_path (CWD cfg) (fs w6) (join out ''makes-action.sh'')
                then (case proc sys (spawned w6) (fs w6) action of
                        Inl k \<Rightarrow> Traceback (OSError k (join out ''makes-action.sh''))
                      | Inr ((code, so', se'), f) \<Rightarrow> Exited code)
                else Exited 0)"
    using program_build_succeeded [OF assms(1-7) assms(9) assms(10), of m]
    by (auto split: sum.splits prod.splits)
  from pushed ended show ?thesis by (rule conjI)
qed

theorem cache_push_when_configured_witness:
  "exit_code (fst (program ex_cfg_token (ex_sys ex_staged 0 True) ex_world
      [''m'', ''.'', ''/foo'', ''--x''])) = 3
   \<and> stderr (ex_w6 ex_cfg_token (ex_sys ex_staged 0 True))
       = stderr (ex_w5 ex_cfg_token (ex_sys ex_staged 0 True)) @ [''Pushing to cache'']
   \<and> ex_w6 ex_cfg (ex_sys ex_staged 0 True) = ex_w5 ex_cfg (ex_sys ex_staged 0 True)"
proof -
  have listed: "''/foo'' \<in> set [''__all__'', ''/foo'', ''/bar'']" by simp
  have entries: "\<forall>c\<in>set ex_cache. map_of c ''type'' \<noteq> None
      \<and> (map_of c ''type'' = Some ''cachix'' \<longrightarrow> map_of c ''name'' \<noteq> None)"
    by (simp add: ex_cache_def)
  have cachix: "\<exists>c\<in>set ex_cache. map_of c ''type'' = Some ''cachix''"
    by (simp add: ex_cache_def)
  have token: "environ ex_cfg_token ''CACHIX_AUTH_TOKEN'' \<noteq> None"
    "environ ex_cfg ''CACHIX_AUTH_TOKEN'' = None"
    by (simp_all add: ex_cfg_token_def ex_cfg_def ex_environ_def)
  have script: "exists_path (CWD ex_cfg_token) (fs (ex_w6 ex_cfg_token (ex_sys ex_staged 0 True)))
      (join ''/tmp/out/result-foo'' ''makes-action.sh'')"
    by code_simp
  have "map_sum id fst (proc (ex_sys ex_staged 0 True)
      (spawned (ex_w6 ex_cfg_token (ex_sys ex_staged 0 True)))
      (fs (ex_w6 ex_cfg_token (ex_sys ex_staged 0 True)))
      \<lparr>args = join ''/tmp/out/result-foo'' ''makes-action.sh'' # ''/tmp/out/result-foo'' # [''--x''],
        cwd = Some (CWD ex_cfg_token), capture_io = False\<rparr>) = Inr (3, [], [])"
    by code_simp
  then obtain f where code: "proc (ex_sys ex_staged 0 True)
      (spawned (ex_w6 ex_cfg_token (ex_sys ex_staged 0 True)))
      (fs (ex_w6 ex_cfg_token (ex_sys ex_staged 0 True)))
      \<lparr>args = join ''/tmp/out/result-foo'' ''makes-action.sh'' # ''/tmp/out/result-foo'' # [''--x''],
        cwd = Some (CWD ex_cfg_token), capture_io = False\<rparr> = Inr ((3, [], []), f)"
    by (auto simp: map_sum_def split: sum.splits)
  note pushed = cache_push_when_configured [where rest = "[''--x'']" and m = "''m''",
      OF ex_pushing_head ex_pushing_attrs listed
      ex_pushing_cache ex_out(2) ex_pushing_build ex_pushing_run entries ex_pushing_push refl]
  note skipped = cache_push_when_configured [where rest = "[''--x'']" and m = "''m''",
      OF ex_acting_head ex_acting_attrs listed
      ex_acting_cache ex_out(1) ex_acting_build ex_acting_run entries ex_acting_push refl]
  show ?thesis
    using pushed skipped cachix token script code by (auto simp: exit_code_def)
qed

subsection \<open>C9: cleanup at exit\<close>

text \<open>
  C9 says that the exit actions run in the reverse of the order of registration.
  \<^verbatim>\<open>cleanup\<close> walks \<open>ON_EXIT\<close> from its first element: in the run below the removal
  of \<open>OUT_BASE\<close>, registered first, also runs first.
\<close>

theorem cleanup_not_reversed:
  "ON_EXIT (snd (program ex_cfg (ex_sys ex_staged 0 False) ex_world [''m'', ''.'', ''/foo'']))
     = [Partial_rmtree ''/tmp/out'' True, Partial_rmtree ''/tmp/makes-0'' True]
   \<and> cleaned (snd (program ex_cfg (ex_sys ex_staged 0 False) ex_world [''m'', ''.'', ''/foo'']))
     \<noteq> rev (ON_EXIT (snd (program ex_cfg (ex_sys ex_staged 0 False) ex_world [''m'', ''.'', ''/foo''])))"
  by code_simp

text \<open>
  C9 as amended: \<^verbatim>\<open>cleanup\<close> runs every registered action once, in the order of
  registration, whatever an action raises; it starts no child process and prints
  nothing, and the process ends as \<^verbatim>\<open>main\<close> left it.
\<close>

theorem cleanup_registration_order:
  "cleaned (cleanup cfg w) = cleaned w @ ON_EXIT w
   \<and> spawned (cleanup cfg w) = spawned w
   \<and> stderr (cleanup cfg w) = stderr w
   \<and> fst (program cfg sys w0 argv) = outcome_of (fst (main cfg sys (startup cfg w0) argv))"
  by (simp add: cleanup_frame program_def split: prod.splits)

theorem cleanup_registration_order_witness:
  "cleaned (cleanup ex_cfg
      (ex_world\<lparr>ON_EXIT := [Partial_rmtree ''/nowhere'' False, Partial_rmtree ''/tmp'' True]\<rparr>))
     = [Partial_rmtree ''/nowhere'' False, Partial_rmtree ''/tmp'' True]"
  using cleanup_registration_order [of ex_cfg
      "ex_world\<lparr>ON_EXIT := [Partial_rmtree ''/nowhere'' False, Partial_rmtree ''/tmp'' True]\<rparr>"]
  by (simp add: ex_world_def)

subsection \<open>C10: removing a path that the checkout does not have\<close>

text \<open>
  C10: let \<open>p\<close> be a listed path such that, when the loop of \<^verbatim>\<open>_get_head\<close> comes to
  it, it exists neither in the working directory nor in the checkout (\<open>earlier\<close> are
  the paths handled before \<open>p\<close>, and \<open>f\<close> is the file system they leave). Then
  \<^verbatim>\<open>_get_head\<close> raises an \<open>OSError\<close>: from \<^verbatim>\<open>os.remove\<close> for \<open>p\<close>, or before it from
  \<^verbatim>\<open>os.makedirs\<close> or an earlier round. It is not turned into an \<open>Error\<close>, and
  \<^verbatim>\<open>main\<close> does not catch it: the process ends with a traceback, and no \<open>[ERROR]\<close>
  report is printed after the listing.
\<close>

theorem get_head_missing_path_raises:
  assumes "is_src_local cfg src"
    and "clone_src cfg sys (cli_banner cfg (startup cfg w)) src = (Inr head, w1)"
    and "run sys w1 [''git'', ''-C'', src, ''diff'', ''--cached'', ''--name-only''] None True
           = (Inr (0, stdout2, stderr2), w2)"
    and "run sys w2 [''git'', ''-C'', src, ''ls-files'', ''--modified''] None True
           = (Inr (0, stdout3, stderr3), w3)"
    and "sort (remdups (splitlines stdout2 @ splitlines stdout3)) = earlier @ p # later"
    and "\<And>f. copy_paths (CWD cfg) src head earlier (fs w3) = (Inr (), f) \<Longrightarrow>
           \<not> exists_path (CWD cfg) f (join src p) \<and> \<not> exists_path (CWD cfg) f (join head p)"
  shows "\<exists>k q. fst (get_head cfg sys (cli_banner cfg (startup cfg w)) src) = Inl (OSError k q)
           \<and> fst (program cfg sys w (m # src # rest)) = Traceback (OSError k q)
           \<and> stderr (snd (program cfg sys w (m # src # rest))) = stderr w3"
proof -
  have "\<exists>k q f'. copy_paths (CWD cfg) src head (earlier @ p # later) (fs w3)
      = (Inl (OSError k q), f')"
  proof (cases "copy_paths (CWD cfg) src head earlier (fs w3)")
    case (Pair r f)
    show ?thesis
    proof (cases r)
      case (Inl e)
      with Pair copy_paths_raises obtain k q where "e = OSError k q" by blast
      with Pair Inl show ?thesis by (simp add: copy_paths_append)
    next
      case (Inr u)
      with Pair have reached: "copy_paths (CWD cfg) src head earlier (fs w3) = (Inr (), f)"
        by simp
      from assms(6) [OF reached] copy_paths_missing_raises
      obtain k q f' where "copy_paths (CWD cfg) src head (p # later) f = (Inl (OSError k q), f')"
        by blast
      with reached show ?thesis by (simp add: copy_paths_append)
    qed
  qed
  then obtain k q f' where
    all: "copy_paths (CWD cfg) src head (earlier @ p # later) (fs w3) = (Inl (OSError k q), f')"
    by blast
  have gh: "get_head cfg sys (cli_banner cfg (startup cfg w)) src = (Inl (OSError k q), w3\<lparr>fs := f'\<rparr>)"
    using assms(1-5) all by (simp add: get_head_def)
  have "cli cfg sys (startup cfg w) (m # src # rest) = (OSError k q, w3\<lparr>fs := f'\<rparr>)"
    using gh by (cases rest) (simp_all add: cli_def Let_def)
  then have "main cfg sys (startup cfg w) (m # src # rest) = (OSError k q, w3\<lparr>fs := f'\<rparr>)"
    by (rule main_OSError)
  then have "program cfg sys w (m # src # rest) = (Traceback (OSError k q), cleanup cfg (w3\<lparr>fs := f'\<rparr>))"
    by (simp add: program_def outcome_of_def)
  then show ?thesis using gh by (auto simp: cleanup_frame)
qed

theorem get_head_missing_path_raises_witness:
  "\<exists>k q. fst (program ex_cfg ex_gone ex_world [''m'', ''.'', ''/foo'']) = Traceback (OSError k q)"
proof -
  have reached: "\<not> exists_path (CWD ex_cfg) f (join ''.'' ''n'')
      \<and> \<not> exists_path (CWD ex_cfg) f (join ''/tmp/makes-0'' ''n'')"
    if "copy_paths (CWD ex_cfg) ''.'' ''/tmp/makes-0'' [] (fs ex_v3) = (Inr (), f)" for f
    using that ex_gone_absent by auto
  show ?thesis
    using get_head_missing_path_raises [where m = "''m''" and rest = "[''/foo'']",
        OF ex_gone_local ex_gone_clone ex_gone_staged ex_gone_modified ex_gone_paths reached]
    by blast
qed

end
